theory Spec2Isabelle
  imports
    Complex_Main
    "HOL-Library.Char_ord"
    "HOL-Library.List_Lexorder"
    "HOL-Library.Multiset"
begin

section \<open>Numbers, rounding and formatting\<close>

text \<open>
  The Python source computes with \<^verbatim>\<open>float\<close> and \<^verbatim>\<open>int\<close> values. An \<^verbatim>\<open>int\<close> is an
  \<^typ>\<open>int\<close> or a \<^typ>\<open>nat\<close>, and its arithmetic is exact. A \<^verbatim>\<open>float\<close> is modelled by
  the \<^typ>\<open>real\<close> that is its value; there is no NaN and no infinity. A decimal of the
  source or of the model that is not a float itself (\<^verbatim>\<open>0.95\<close>, \<^verbatim>\<open>26.2\<close>) stands for the
  float nearest to it. Comparisons, \<^verbatim>\<open>min\<close> and \<^verbatim>\<open>max\<close> do not round: they are those of
  the reals.

  The float operations \<^verbatim>\<open>+\<close>, \<^verbatim>\<open>-\<close>, \<^verbatim>\<open>*\<close>, \<^verbatim>\<open>/\<close> and the builtin \<^verbatim>\<open>sum\<close> round their
  result. They are a parameter \<open>A\<close> of the model, a record of five operations, and a
  statement with \<open>A\<close> free holds whatever the operations are, so in particular for the
  float arithmetic of Python.
\<close>

record float_ops =
  fl_add :: "real \<Rightarrow> real \<Rightarrow> real"
  fl_sub :: "real \<Rightarrow> real \<Rightarrow> real"
  fl_mul :: "real \<Rightarrow> real \<Rightarrow> real"
  fl_div :: "real \<Rightarrow> real \<Rightarrow> real"
  fl_sum :: "real list \<Rightarrow> real"

text \<open>
  \<^verbatim>\<open>round(x, n)\<close> returns the float nearest to the decimal of \<open>n\<close> places that is
  nearest to the value of the float \<open>x\<close>, a tie going to the even neighbour;
  \<open>py_round x n\<close> is that decimal. The rounding that precedes it is that of the
  operation that computed \<open>x\<close>.
\<close>

definition round_half_even :: "real \<Rightarrow> int" where
  "round_half_even x =
     (let f = \<lfloor>x\<rfloor>; d = x - of_int f
      in if d < 1 / 2 then f
         else if 1 / 2 < d then f + 1
         else if even f then f else f + 1)"

definition py_round :: "real \<Rightarrow> nat \<Rightarrow> real" where
  "py_round x n = of_int (round_half_even (x * 10 ^ n)) / 10 ^ n"

text \<open>\<^verbatim>\<open>d.get(k, default)\<close> on a dictionary, and on an optional key of a typed record.\<close>

definition dict_get :: "('k \<rightharpoonup> 'v) \<Rightarrow> 'k \<Rightarrow> 'v \<Rightarrow> 'v" where
  "dict_get d k dflt = (case d k of None \<Rightarrow> dflt | Some v \<Rightarrow> v)"

definition get_or :: "'v option \<Rightarrow> 'v \<Rightarrow> 'v" where
  "get_or field dflt = (case field of None \<Rightarrow> dflt | Some v \<Rightarrow> v)"

section \<open>Fitness level\<close>

text \<open>\<^verbatim>\<open>_determine_fitness_level\<close> (lines 224-246): the base level, then the pace adjustment.\<close>

definition base_level :: "real \<Rightarrow> real \<Rightarrow> string" where
  "base_level weekly_mileage longest_run =
     (if weekly_mileage \<ge> 50 \<and> longest_run \<ge> 20 then ''Advanced''
      else if weekly_mileage \<ge> 35 \<and> longest_run \<ge> 16 then ''Intermediate+''
      else if weekly_mileage \<ge> 25 \<and> longest_run \<ge> 12 then ''Intermediate''
      else if weekly_mileage \<ge> 15 \<and> longest_run \<ge> 8 then ''Beginner+''
      else ''Beginner'')"

definition determine_fitness_level :: "real \<Rightarrow> real \<Rightarrow> real \<Rightarrow> string" where
  "determine_fitness_level weekly_mileage longest_run avg_pace =
     (let level = base_level weekly_mileage longest_run
      in if avg_pace < 7.0 then
           (if level \<in> set [''Beginner'', ''Beginner+''] then ''Intermediate'' else level)
         else if avg_pace > 10.0 then
           (if level \<in> set [''Advanced'', ''Intermediate+''] then ''Intermediate'' else level)
         else level)"

text \<open>
  The rule as the specification words it: five ordered tiers, a descending cascade for
  the base tier, then one promotion rule and one demotion rule.
\<close>

datatype tier = Beginner | BeginnerPlus | Intermediate | IntermediatePlus | Advanced

fun tier_rank :: "tier \<Rightarrow> nat" where
  "tier_rank Beginner = 0"
| "tier_rank BeginnerPlus = 1"
| "tier_rank Intermediate = 2"
| "tier_rank IntermediatePlus = 3"
| "tier_rank Advanced = 4"

fun tier_label :: "tier \<Rightarrow> string" where
  "tier_label Beginner = ''Beginner''"
| "tier_label BeginnerPlus = ''Beginner+''"
| "tier_label Intermediate = ''Intermediate''"
| "tier_label IntermediatePlus = ''Intermediate+''"
| "tier_label Advanced = ''Advanced''"

definition spec_cascade :: "(real \<times> real \<times> tier) list" where
  "spec_cascade =
     [(50, 20, Advanced), (35, 16, IntermediatePlus), (25, 12, Intermediate), (15, 8, BeginnerPlus)]"

fun first_match :: "(real \<times> real \<times> tier) list \<Rightarrow> real \<Rightarrow> real \<Rightarrow> tier" where
  "first_match [] m l = Beginner"
| "first_match ((mt, lt, t) # rest) m l = (if m \<ge> mt \<and> l \<ge> lt then t else first_match rest m l)"

fun spec_adjust :: "tier \<Rightarrow> real \<Rightarrow> tier" where
  "spec_adjust Beginner p = (if p < 7 then Intermediate else Beginner)"
| "spec_adjust BeginnerPlus p = (if p < 7 then Intermediate else BeginnerPlus)"
| "spec_adjust Intermediate p = Intermediate"
| "spec_adjust IntermediatePlus p = (if p > 10 then Intermediate else IntermediatePlus)"
| "spec_adjust Advanced p = (if p > 10 then Intermediate else Advanced)"

definition spec_fitness_tier :: "real \<Rightarrow> real \<Rightarrow> real \<Rightarrow> tier" where
  "spec_fitness_tier m l p = spec_adjust (first_match spec_cascade m l) p"

text \<open>The order of the labels: the rank of a label of the five tiers, by position.\<close>

definition level_rank :: "string \<Rightarrow> nat" where
  "level_rank level =
     (if level = ''Beginner'' then 0
      else if level = ''Beginner+'' then 1
      else if level = ''Intermediate'' then 2
      else if level = ''Intermediate+'' then 3
      else 4)"

section \<open>Errors and Python primitives\<close>

text \<open>
  Every failure of the source is a value. \<open>NoValidRunningData\<close> is the error dictionary
  \<^verbatim>\<open>{"error": "No valid running data available"}\<close> that \<^verbatim>\<open>analyze_strava_fitness\<close>
  returns in place of a profile; \<open>ValueError\<close> and \<open>IndexError\<close> are the exceptions that
  the builtins \<^verbatim>\<open>float\<close>, \<^verbatim>\<open>datetime.strptime\<close> and list indexing raise.
\<close>

datatype error = NoValidRunningData | ValueError | IndexError

definition ebind :: "error + 'a \<Rightarrow> ('a \<Rightarrow> error + 'b) \<Rightarrow> error + 'b" where
  "ebind r f = (case r of Inl e \<Rightarrow> Inl e | Inr v \<Rightarrow> f v)"

text \<open>\<^verbatim>\<open>range(a, b)\<close>, \<^verbatim>\<open>range(0, b, 2)\<close>, \<^verbatim>\<open>xs[:n]\<close> and \<^verbatim>\<open>xs[i]\<close> for \<open>i \<ge> 0\<close>.\<close>

definition py_range :: "int \<Rightarrow> int \<Rightarrow> int list" where
  "py_range a b = [a..b - 1]"

definition py_range_step2 :: "int \<Rightarrow> int list" where
  "py_range_step2 b = filter (\<lambda>i. i mod 2 = 0) (py_range 0 b)"

definition py_slice_to :: "'a list \<Rightarrow> int \<Rightarrow> 'a list" where
  "py_slice_to xs n =
     (if 0 \<le> n then take (nat n) xs else take (length xs - nat (- n)) xs)"

definition py_index :: "'a list \<Rightarrow> nat \<Rightarrow> error + 'a" where
  "py_index xs i = (if i < length xs then Inr (xs ! i) else Inl IndexError)"

text \<open>\<^verbatim>\<open>s.split(':')\<close>: every separator starts a new part, so the result is never empty.\<close>

fun split_on :: "char \<Rightarrow> string \<Rightarrow> string list" where
  "split_on c [] = [[]]"
| "split_on c (x # xs) =
     (if x = c then [] # split_on c xs
      else (case split_on c xs of [] \<Rightarrow> [[x]] | p # ps \<Rightarrow> (x # p) # ps))"

text \<open>
  The builtin \<^verbatim>\<open>float(s)\<close> is a parameter \<open>pf\<close> of the model: \<open>pf s = None\<close> where
  Python raises \<^verbatim>\<open>ValueError\<close>. Every theorem holds for every such parameter.
\<close>

definition py_float :: "(string \<Rightarrow> real option) \<Rightarrow> string \<Rightarrow> error + real" where
  "py_float pf s = (case pf s of None \<Rightarrow> Inl ValueError | Some v \<Rightarrow> Inr v)"

text \<open>
  \<^verbatim>\<open>f"{x:.0f}"\<close>: the integer nearest to the value of the float \<open>x\<close>, a tie going to
  the even neighbour, in decimal, with the sign of a negative \<open>x\<close>.
\<close>

definition digit_char :: "nat \<Rightarrow> char" where
  "digit_char d = ''0123456789'' ! d"

function string_of_nat :: "nat \<Rightarrow> string" where
  "string_of_nat n =
     (if n < 10 then [digit_char n] else string_of_nat (n div 10) @ [digit_char (n mod 10)])"
  by pat_completeness auto
termination
  by (relation "measure (\<lambda>n. n)") auto

declare string_of_nat.simps [simp del]

definition fmt0 :: "real \<Rightarrow> string" where
  "fmt0 x =
     (let r = round_half_even x
      in if x < 0 then CHR ''-'' # string_of_nat (nat (- r)) else string_of_nat (nat r))"

section \<open>The fitness dictionary\<close>

text \<open>
  The dictionary that \<^verbatim>\<open>analyze_strava_fitness\<close> returns and \<^verbatim>\<open>generate_training_plan\<close>
  reads with \<^verbatim>\<open>.get\<close>: a record of optional keys, \<open>None\<close> for a key that is absent.
\<close>

record longest_run_rec =
  lr_distance :: "real option"
  lr_pace :: "real option"
  lr_date :: "string option"

record fitness_data =
  data_period_days :: "int option"
  total_runs :: "nat option"
  total_distance :: "real option"
  weekly_mileage :: "real option"
  average_pace :: "real option"
  recent_pace_trend :: "real option"
  longest_run :: "longest_run_rec option"
  fitness_level :: "string option"
  consistency_score :: "string option"
  workout_distribution :: "(string option \<rightharpoonup> nat) option"
  profile_average_heartrate :: "real option"
  training_recommendations :: "string list option"

section \<open>Plan generation\<close>

record training_phase =
  phase :: string
  phase_weeks :: string
  phase_focus :: string
  mileage_range :: string

record week_structure =
  runs_per_week :: nat
  structure_slots :: "string list"

datatype workout =
  Progression string "real list" string
| Examples string "string list" string

record pace_table =
  current_average_pace :: real
  goal_marathon_pace :: real
  easy_pace :: real
  tempo_pace :: real
  interval_pace :: real
  long_run_pace :: real

record week_entry =
  week :: int
  total_miles :: real
  focus :: string
  key_workout :: string

record training_plan =
  timeline_weeks :: int
  plan_fitness_level :: string
  current_weekly_mileage :: real
  peak_weekly_mileage :: real
  goal_marathon_time :: "string option"
  training_phases :: "training_phase list"
  weekly_structure :: week_structure
  key_workouts :: "workout list"
  pace_targets :: pace_table
  weekly_schedule :: "week_entry list"

text \<open>\<^verbatim>\<open>_create_training_phases\<close> (lines 248-274).\<close>

definition create_training_phases ::
  "float_ops \<Rightarrow> int \<Rightarrow> real \<Rightarrow> real \<Rightarrow> training_phase list" where
  "create_training_phases A weeks base peak =
     (if weeks = 16 then
        [\<lparr>phase = ''Base Building'', phase_weeks = ''1-6'', phase_focus = ''Aerobic development'',
          mileage_range = fmt0 base @ ''-'' @ fmt0 (fl_mul A base 1.3)\<rparr>,
         \<lparr>phase = ''Build Up'', phase_weeks = ''7-12'', phase_focus = ''Speed & strength'',
          mileage_range = fmt0 (fl_mul A base 1.3) @ ''-'' @ fmt0 peak\<rparr>,
         \<lparr>phase = ''Peak'', phase_weeks = ''13-14'', phase_focus = ''Race pace practice'',
          mileage_range = fmt0 peak\<rparr>,
         \<lparr>phase = ''Taper'', phase_weeks = ''15-16'', phase_focus = ''Recovery & race prep'',
          mileage_range = fmt0 (fl_mul A base 0.6) @ ''-'' @ fmt0 (fl_mul A base 0.8)\<rparr>]
      else if weeks = 12 then
        [\<lparr>phase = ''Base Building'', phase_weeks = ''1-4'', phase_focus = ''Aerobic development'',
          mileage_range = fmt0 base @ ''-'' @ fmt0 (fl_mul A base 1.2)\<rparr>,
         \<lparr>phase = ''Build Up'', phase_weeks = ''5-9'', phase_focus = ''Speed & strength'',
          mileage_range = fmt0 (fl_mul A base 1.2) @ ''-'' @ fmt0 peak\<rparr>,
         \<lparr>phase = ''Peak'', phase_weeks = ''10'', phase_focus = ''Race pace practice'',
          mileage_range = fmt0 peak\<rparr>,
         \<lparr>phase = ''Taper'', phase_weeks = ''11-12'', phase_focus = ''Recovery & race prep'',
          mileage_range = fmt0 (fl_mul A base 0.7) @ ''-'' @ fmt0 (fl_mul A base 0.8)\<rparr>]
      else if weeks = 8 then
        [\<lparr>phase = ''Build Up'', phase_weeks = ''1-5'', phase_focus = ''Maintain & improve'',
          mileage_range = fmt0 base @ ''-'' @ fmt0 peak\<rparr>,
         \<lparr>phase = ''Peak'', phase_weeks = ''6'', phase_focus = ''Race pace practice'',
          mileage_range = fmt0 peak\<rparr>,
         \<lparr>phase = ''Taper'', phase_weeks = ''7-8'', phase_focus = ''Recovery & race prep'',
          mileage_range = fmt0 (fl_mul A base 0.8)\<rparr>]
      else
        [\<lparr>phase = ''Maintain'', phase_weeks = ''1-2'', phase_focus = ''Maintain fitness'',
          mileage_range = fmt0 base\<rparr>,
         \<lparr>phase = ''Taper'', phase_weeks = ''3-4'', phase_focus = ''Recovery & race prep'',
          mileage_range = fmt0 (fl_mul A base 0.7)\<rparr>])"

text \<open>\<^verbatim>\<open>_create_weekly_structure\<close> (lines 276-300).\<close>

definition structures :: "string \<rightharpoonup> week_structure" where
  "structures =
     [''Beginner'' \<mapsto>
        \<lparr>runs_per_week = 4,
         structure_slots = [''Easy Run'', ''Rest'', ''Easy Run'', ''Rest'', ''Tempo/Speed'', ''Rest'',
                            ''Long Run'']\<rparr>,
      ''Beginner+'' \<mapsto>
        \<lparr>runs_per_week = 5,
         structure_slots = [''Easy Run'', ''Tempo/Speed'', ''Easy Run'', ''Rest'', ''Easy Run'', ''Rest'',
                            ''Long Run'']\<rparr>,
      ''Intermediate'' \<mapsto>
        \<lparr>runs_per_week = 5,
         structure_slots = [''Easy Run'', ''Speed Work'', ''Easy Run'', ''Tempo Run'', ''Easy Run'',
                            ''Rest'', ''Long Run'']\<rparr>,
      ''Intermediate+'' \<mapsto>
        \<lparr>runs_per_week = 6,
         structure_slots = [''Easy Run'', ''Speed Work'', ''Easy Run'', ''Tempo Run'', ''Easy Run'',
                            ''Recovery Run'', ''Long Run'']\<rparr>,
      ''Advanced'' \<mapsto>
        \<lparr>runs_per_week = 6,
         structure_slots = [''Easy Run'', ''Speed Work'', ''Easy Run'', ''Tempo Run'', ''Easy Run'',
                            ''Recovery Run'', ''Long Run'']\<rparr>]"

definition create_weekly_structure :: "string \<Rightarrow> week_structure" where
  "create_weekly_structure level = dict_get structures level (the (structures ''Beginner''))"

text \<open>
  \<^verbatim>\<open>_generate_key_workouts\<close> (lines 302-359). The loop of lines 311-314 carries
  \<open>current\<close> and the list built so far; the increment comes before the append.
\<close>

fun long_run_loop :: "float_ops \<Rightarrow> int list \<Rightarrow> real \<Rightarrow> real list \<Rightarrow> real list" where
  "long_run_loop A [] current long_runs = long_runs"
| "long_run_loop A (i # rest) current long_runs =
     (let current' = (if i mod 2 = 0 \<and> current < 20 then fl_add A current 2 else current)
      in long_run_loop A rest current' (long_runs @ [min current' 22]))"

definition long_run_progression :: "float_ops \<Rightarrow> int \<Rightarrow> real \<Rightarrow> real list" where
  "long_run_progression A weeks current_longest =
     (let start_long = max current_longest 8;
          long_runs =
            (if weeks \<ge> 12 then
               long_run_loop A (py_range 0 (weeks - 4)) start_long [] @ [18, 12, 8, 6]
             else
               map (\<lambda>i. fl_add A start_long (of_int i)) (py_range_step2 (min (weeks - 2) 6))
               @ [12, 8])
      in py_slice_to long_runs weeks)"

definition speed_workouts :: "string \<Rightarrow> string list" where
  "speed_workouts level =
     (if level \<in> set [''Beginner''] then
        [''4x400m @ 5K pace'', ''3x800m @ 5K pace'', ''6x400m @ 5K pace'', ''4x800m @ 5K pace'']
      else if level \<in> set [''Beginner+'', ''Intermediate''] then
        [''4x800m @ 5K pace'', ''6x800m @ 5K pace'', ''3x1600m @ 10K pace'',
         ''5x1000m @ 5K pace'', ''8x400m @ Mile pace'']
      else
        [''6x800m @ 5K pace'', ''4x1200m @ 5K pace'', ''3x1600m @ 10K pace'',
         ''8x400m @ Mile pace'', ''5x1000m @ 5K pace'', ''2x3200m @ 10K pace''])"

definition generate_key_workouts ::
  "float_ops \<Rightarrow> int \<Rightarrow> string \<Rightarrow> real \<Rightarrow> workout list" where
  "generate_key_workouts A weeks level current_longest =
     [Progression ''Long Runs'' (long_run_progression A weeks current_longest)
        ''Build endurance gradually, practice race nutrition'',
      Examples ''Speed Work'' (speed_workouts level)
        ''Improve VO2 max and running economy'']"

text \<open>
  \<^verbatim>\<open>_calculate_pace_targets\<close> (lines 361-381). \<^verbatim>\<open>if goal_time:\<close> is false for
  \<^verbatim>\<open>None\<close> and for the empty string. The parts are read left to right, so the first
  failure is the one raised.
\<close>

definition goal_pace_of ::
  "float_ops \<Rightarrow> (string \<Rightarrow> real option) \<Rightarrow> real \<Rightarrow> string option \<Rightarrow> error + real" where
  "goal_pace_of A pf current_pace goal_time =
     (case goal_time of
        None \<Rightarrow> Inr (fl_mul A current_pace 0.95)
      | Some s \<Rightarrow>
          if s = [] then Inr (fl_mul A current_pace 0.95)
          else
            (let time_parts = split_on CHR '':'' s
             in ebind (py_index time_parts 0) (\<lambda>p0. ebind (py_float pf p0) (\<lambda>h.
                ebind (py_index time_parts 1) (\<lambda>p1. ebind (py_float pf p1) (\<lambda>m.
                ebind (py_index time_parts 2) (\<lambda>p2. ebind (py_float pf p2) (\<lambda>sec.
                  (let goal_hours = fl_add A (fl_add A h (fl_div A m 60)) (fl_div A sec 3600)
                   in Inr (fl_div A (fl_mul A goal_hours 60) 26.2))))))))))"

definition calculate_pace_targets ::
  "float_ops \<Rightarrow> (string \<Rightarrow> real option) \<Rightarrow> fitness_data \<Rightarrow> string option
     \<Rightarrow> error + pace_table" where
  "calculate_pace_targets A pf fd goal_time =
     (let current_pace = get_or (average_pace fd) 9.0
      in ebind (goal_pace_of A pf current_pace goal_time) (\<lambda>goal_pace.
           Inr \<lparr>current_average_pace = current_pace,
                goal_marathon_pace = py_round goal_pace 2,
                easy_pace = py_round (fl_mul A goal_pace 1.15) 2,
                tempo_pace = py_round (fl_mul A goal_pace 0.92) 2,
                interval_pace = py_round (fl_mul A goal_pace 0.85) 2,
                long_run_pace = py_round (fl_mul A goal_pace 1.10) 2\<rparr>))"

text \<open>\<^verbatim>\<open>_get_week_focus\<close> (lines 427-442) and \<^verbatim>\<open>_get_key_workout\<close> (lines 444-456).\<close>

definition get_week_focus :: "int \<Rightarrow> int \<Rightarrow> string" where
  "get_week_focus week_num total_weeks =
     (if total_weeks \<ge> 12 then
        (if week_num \<le> 6 then ''Base building''
         else if week_num \<le> total_weeks - 4 then ''Speed & strength''
         else if week_num \<le> total_weeks - 2 then ''Race pace''
         else ''Taper & recovery'')
      else
        (if week_num \<le> total_weeks - 2 then ''Maintain fitness''
         else ''Taper & recovery''))"

definition get_key_workout :: "int \<Rightarrow> int \<Rightarrow> string \<Rightarrow> string" where
  "get_key_workout week_num total_weeks level =
     (if week_num > total_weeks - 2 then ''Easy pace runs only''
      else
        (let workout_cycle = (week_num - 1) mod 3;
             workouts =
               (if level \<in> set [''Beginner''] then [''Tempo run'', ''Fartlek'', ''Hill repeats'']
                else [''Interval training'', ''Tempo run'', ''Long run with pickups''])
         in workouts ! nat workout_cycle))"

text \<open>\<^verbatim>\<open>_generate_weekly_schedule\<close> (lines 383-425).\<close>

definition mileage_progression :: "float_ops \<Rightarrow> int \<Rightarrow> real \<Rightarrow> real \<Rightarrow> real list" where
  "mileage_progression A weeks base_mileage peak_mileage =
     (if weeks \<ge> 12 then
        (let build_weeks = weeks - 4;
             increment = fl_div A (fl_sub A peak_mileage base_mileage) (of_int build_weeks)
         in map (\<lambda>wk. py_round (fl_add A base_mileage (fl_mul A increment (of_int wk))) 1)
              (py_range 0 build_weeks)
            @ [py_round (fl_mul A peak_mileage 0.8) 1, py_round (fl_mul A peak_mileage 0.6) 1,
               py_round (fl_mul A peak_mileage 0.4) 1, py_round (fl_mul A peak_mileage 0.3) 1])
      else
        map (\<lambda>wk. base_mileage) (py_range 0 (weeks - 2))
        @ [py_round (fl_mul A base_mileage 0.7) 1, py_round (fl_mul A base_mileage 0.5) 1])"

definition generate_weekly_schedule ::
  "float_ops \<Rightarrow> int \<Rightarrow> real \<Rightarrow> real \<Rightarrow> string \<Rightarrow> week_entry list" where
  "generate_weekly_schedule A weeks base_mileage peak_mileage level =
     (let progression = mileage_progression A weeks base_mileage peak_mileage
      in map (\<lambda>week_num.
                \<lparr>week = week_num,
                 total_miles =
                   (if week_num \<le> int (length progression) then progression ! nat (week_num - 1)
                    else base_mileage),
                 focus = get_week_focus week_num weeks,
                 key_workout = get_key_workout week_num weeks level\<rparr>)
           (py_range 1 (weeks + 1)))"

text \<open>\<^verbatim>\<open>generate_training_plan\<close> (lines 161-191).\<close>

definition peak_multipliers :: "int \<rightharpoonup> real" where
  "peak_multipliers = [16 \<mapsto> 1.8, 12 \<mapsto> 1.6, 8 \<mapsto> 1.4, 4 \<mapsto> 1.2]"

definition max_safe_mileage :: "float_ops \<Rightarrow> int \<Rightarrow> real \<Rightarrow> string \<Rightarrow> real" where
  "max_safe_mileage A weeks mileage level =
     (let safe = min (fl_mul A mileage (dict_get peak_multipliers weeks 1.5)) 70
      in if level = ''Beginner'' then min safe 40
         else if level = ''Beginner+'' then min safe 50
         else safe)"

definition generate_training_plan ::
  "float_ops \<Rightarrow> (string \<Rightarrow> real option) \<Rightarrow> int \<Rightarrow> fitness_data \<Rightarrow> string option
     \<Rightarrow> error + training_plan" where
  "generate_training_plan A pf weeks fd goal_time =
     (let mileage = get_or (weekly_mileage fd) 20;
          level = get_or (fitness_level fd) ''Beginner'';
          longest =
            get_or (lr_distance (get_or (longest_run fd)
                      \<lparr>lr_distance = None, lr_pace = None, lr_date = None\<rparr>)) 8;
          safe = max_safe_mileage A weeks mileage level
      in ebind (calculate_pace_targets A pf fd goal_time) (\<lambda>paces.
           Inr \<lparr>timeline_weeks = weeks,
                plan_fitness_level = level,
                current_weekly_mileage = mileage,
                peak_weekly_mileage = py_round safe 1,
                goal_marathon_time = goal_time,
                training_phases = create_training_phases A weeks mileage safe,
                weekly_structure = create_weekly_structure level,
                key_workouts = generate_key_workouts A weeks level longest,
                pace_targets = paces,
                weekly_schedule = generate_weekly_schedule A weeks mileage safe level\<rparr>))"

section \<open>Fitness analysis\<close>

text \<open>
  A run record as \<^verbatim>\<open>get_strava_activities\<close> builds it (lines 83-95). The keys read with
  \<^verbatim>\<open>.get\<close> are optional; \<open>workout_type\<close> is \<open>None\<close> when the key is absent and
  \<open>Some None\<close> when it holds \<^verbatim>\<open>None\<close>.
\<close>

record run =
  run_id :: int
  run_name :: string
  date :: string
  distance :: real
  moving_time :: int
  pace_per_mile :: real
  elevation_gain :: real
  average_heartrate :: "real option"
  max_heartrate :: "real option"
  suffer_score :: "real option"
  workout_type :: "string option option"

text \<open>\<^verbatim>\<open>_calculate_consistency_score\<close> (lines 193-204).\<close>

definition calculate_consistency_score :: "real \<Rightarrow> string" where
  "calculate_consistency_score avg_gap_days =
     (if avg_gap_days \<le> 1.5 then ''Excellent (Daily runner)''
      else if avg_gap_days \<le> 2.5 then ''Very Good (5-6 runs/week)''
      else if avg_gap_days \<le> 3.5 then ''Good (4-5 runs/week)''
      else if avg_gap_days \<le> 5 then ''Fair (3-4 runs/week)''
      else ''Needs Improvement (Inconsistent)'')"

text \<open>\<^verbatim>\<open>_generate_recommendations\<close> (lines 206-222).\<close>

definition generate_recommendations :: "real \<Rightarrow> real \<Rightarrow> real \<Rightarrow> string list" where
  "generate_recommendations mileage longest avg_gap =
     (if mileage < 20 then [''Focus on building base mileage gradually (10% rule)''] else [])
     @ (if longest < 10 then [''Gradually increase long run distance''] else [])
     @ (if avg_gap > 3 then [''Improve consistency - aim for at least 4 runs per week''] else [])
     @ (if mileage > 50 \<and> longest < 16
        then [''Add more long runs to match your weekly volume''] else [])"

text \<open>
  \<^verbatim>\<open>max(xs, key=f)\<close> keeps the first maximal element; \<^verbatim>\<open>sorted(xs, key=f, reverse=True)\<close>
  is stable; the loop of lines 125-128 counts the workout types.
\<close>

fun max_by :: "('a \<Rightarrow> real) \<Rightarrow> 'a \<Rightarrow> 'a list \<Rightarrow> 'a" where
  "max_by key best [] = best"
| "max_by key best (x # xs) = max_by key (if key x > key best then x else best) xs"

definition sorted_desc :: "('a \<Rightarrow> 'k::linorder) \<Rightarrow> 'a list \<Rightarrow> 'a list" where
  "sorted_desc key xs = rev (sort_key key (rev xs))"

fun count_types :: "run list \<Rightarrow> (string option \<rightharpoonup> nat) \<Rightarrow> (string option \<rightharpoonup> nat)" where
  "count_types [] workout_types = workout_types"
| "count_types (r # rest) workout_types =
     (let wtype = get_or (workout_type r) (Some ''Easy'')
      in count_types rest (workout_types(wtype \<mapsto> dict_get workout_types wtype 0 + 1)))"

text \<open>
  Lines 135-138. \<^verbatim>\<open>datetime.strptime(s, '%Y-%m-%d')\<close> is a parameter \<open>sp\<close> of the model:
  the day number of the date, or \<open>None\<close> where Python raises \<^verbatim>\<open>ValueError\<close>. The
  difference of two day numbers is the \<^verbatim>\<open>.days\<close> of the difference of the dates.

  The gaps are \<^verbatim>\<open>int\<close>s, and so are their sum and their number. Their quotient is the
  float nearest to the exact quotient, and the source only compares it with the floats
  1.5, 2.5, 3.5, 5 and 3. A quotient of denominator \<open>n\<close> that is not one of these
  floats is at least \<open>1 / (2 * n)\<close> away from it, so for fewer than \<open>10\<^sup>1\<^sup>4\<close> runs
  each comparison gives what it gives for the exact quotient, which is the
  \<open>average_gap\<close> of the model.
\<close>

definition parse_dates :: "(string \<Rightarrow> int option) \<Rightarrow> string list \<Rightarrow> error + int list" where
  "parse_dates sp ds = (case those (map sp ds) of None \<Rightarrow> Inl ValueError | Some days \<Rightarrow> Inr days)"

definition date_gaps :: "int list \<Rightarrow> int list" where
  "date_gaps run_dates = map (\<lambda>i. run_dates ! i - run_dates ! (i - 1)) [1..<length run_dates]"

definition average_gap :: "int list \<Rightarrow> real" where
  "average_gap gaps = (if gaps \<noteq> [] then of_int (sum_list gaps) / real (length gaps) else 0)"

text \<open>
  \<^verbatim>\<open>analyze_strava_fitness\<close> (lines 105-159). On a list of run records the test
  \<^verbatim>\<open>'error' in runs_data\<close> is false, so the guard of line 107 is the emptiness test.
  The locals \<^verbatim>\<open>total_distance\<close>, \<^verbatim>\<open>weekly_mileage\<close>, \<^verbatim>\<open>longest_run\<close> and
  \<^verbatim>\<open>fitness_level\<close> are written \<open>total_dist\<close>, \<open>mileage\<close>, \<open>longest\<close> and \<open>level\<close>,
  their own names being the keys of the profile.
\<close>

definition analyze_strava_fitness ::
  "float_ops \<Rightarrow> (string \<Rightarrow> int option) \<Rightarrow> run list \<Rightarrow> error + fitness_data" where
  "analyze_strava_fitness A sp runs_data =
     (case runs_data of
        [] \<Rightarrow> Inl NoValidRunningData
      | first # others \<Rightarrow>
          (let total_dist = fl_sum A (map distance runs_data);
               n_runs = length runs_data;
               avg_pace = fl_div A (fl_sum A (map pace_per_mile runs_data)) (real n_runs);
               weeks_of_data = card (set (map (\<lambda>r. take 7 (date r)) runs_data));
               mileage = fl_div A total_dist (real (max weeks_of_data 1));
               longest = max_by distance first others;
               recent_runs = take 10 (sorted_desc date runs_data);
               recent_avg_pace =
                 fl_div A (fl_sum A (map pace_per_mile recent_runs)) (real (length recent_runs));
               workout_types = count_types runs_data Map.empty;
               hr_runs = filter (\<lambda>r. case average_heartrate r of None \<Rightarrow> False | Some h \<Rightarrow> h \<noteq> 0)
                           runs_data;
               avg_hr = (if hr_runs \<noteq> []
                         then Some (fl_div A (fl_sum A (map (\<lambda>r. the (average_heartrate r)) hr_runs))
                                      (real (length hr_runs)))
                         else None)
           in ebind (parse_dates sp (map date runs_data)) (\<lambda>parsed.
                (let run_dates = sort parsed;
                     gaps = date_gaps run_dates;
                     avg_gap = average_gap gaps;
                     level = determine_fitness_level mileage (distance longest) avg_pace
                 in Inr \<lparr>data_period_days = Some (Max (set run_dates) - Min (set run_dates)),
                         total_runs = Some n_runs,
                         total_distance = Some (py_round total_dist 1),
                         weekly_mileage = Some (py_round mileage 1),
                         average_pace = Some (py_round avg_pace 2),
                         recent_pace_trend = Some (py_round recent_avg_pace 2),
                         longest_run = Some \<lparr>lr_distance = Some (distance longest),
                                              lr_pace = Some (pace_per_mile longest),
                                              lr_date = Some (date longest)\<rparr>,
                         fitness_level = Some level,
                         consistency_score = Some (calculate_consistency_score avg_gap),
                         workout_distribution = Some workout_types,
                         profile_average_heartrate =
                           (case avg_hr of None \<Rightarrow> None
                            | Some h \<Rightarrow> if h \<noteq> 0 then Some (py_round h 0) else None),
                         training_recommendations =
                           Some (generate_recommendations mileage (distance longest) avg_gap)\<rparr>))))"

section \<open>Instances of the parameters\<close>

text \<open>
  Executable instances of the parameters, for evaluating the model on concrete
  inputs. \<open>exact_ops\<close> is the arithmetic without rounding. The evaluations below
  apply it where the value they state is the one of the float arithmetic: either the
  exact result is a float (\<open>20 + 6\<close>, \<open>(10 + 8.5) / 2\<close>, \<open>8 + 2\<close>,
  \<open>35 \<times> 0.5\<close>), or it is not and the \<^verbatim>\<open>round\<close> that follows it is far from a
  tie and sends the exact result and the float result to the same decimal
  (\<open>0.08 \<times> 0.7\<close> is 0.056, and 0.055999999999999994 in floats, both rounded to
  0.1; \<open>9 \<times> 0.95\<close> is 8.55, and 8.549999999999999 in floats, both rounded to 8.55).

  \<open>decimal_float\<close> reads an optional sign, digits and an optional fraction, as
  \<^verbatim>\<open>float\<close> does on such strings, and rejects every other string, among them the
  empty string and \<^verbatim>\<open>abc\<close>, which \<^verbatim>\<open>float\<close> rejects as well.
  \<open>iso_date\<close> reads a zero-padded \<^verbatim>\<open>YYYY-MM-DD\<close> date, the form that line 86 of the
  source produces, and returns its proleptic Gregorian day number.
\<close>

definition exact_ops :: float_ops where
  "exact_ops = \<lparr>fl_add = (+), fl_sub = (-), fl_mul = (*), fl_div = (/), fl_sum = sum_list\<rparr>"

definition digit_val :: "char \<Rightarrow> nat option" where
  "digit_val c = map_of (zip ''0123456789'' [0, 1, 2, 3, 4, 5, 6, 7, 8, 9]) c"

fun digits_val :: "string \<Rightarrow> nat \<Rightarrow> nat option" where
  "digits_val [] acc = Some acc"
| "digits_val (c # cs) acc =
     (case digit_val c of None \<Rightarrow> None | Some d \<Rightarrow> digits_val cs (10 * acc + d))"

definition unsigned_float :: "string \<Rightarrow> real option" where
  "unsigned_float s =
     (case split_on CHR ''.'' s of
        [ip] \<Rightarrow> (if ip = [] then None else map_option real (digits_val ip 0))
      | [ip, fp] \<Rightarrow>
          (if ip = [] \<and> fp = [] then None
           else (case (digits_val ip 0, digits_val fp 0) of
                   (Some a, Some b) \<Rightarrow> Some (real a + real b / 10 ^ length fp)
                 | _ \<Rightarrow> None))
      | _ \<Rightarrow> None)"

definition decimal_float :: "string \<Rightarrow> real option" where
  "decimal_float s =
     (case s of
        [] \<Rightarrow> None
      | c # cs \<Rightarrow>
          if c = CHR ''-'' then map_option uminus (unsigned_float cs)
          else if c = CHR ''+'' then unsigned_float cs
          else unsigned_float s)"

definition is_leap :: "nat \<Rightarrow> bool" where
  "is_leap y \<longleftrightarrow> y mod 4 = 0 \<and> (y mod 100 \<noteq> 0 \<or> y mod 400 = 0)"

definition month_lengths :: "nat \<Rightarrow> nat list" where
  "month_lengths y = [31, if is_leap y then 29 else 28, 31, 30, 31, 30, 31, 31, 30, 31, 30, 31]"

definition day_number :: "nat \<Rightarrow> nat \<Rightarrow> nat \<Rightarrow> int option" where
  "day_number y m d =
     (if 1 \<le> y \<and> 1 \<le> m \<and> m \<le> 12 \<and> 1 \<le> d \<and> d \<le> month_lengths y ! (m - 1)
      then Some (int ((y - 1) * 365 + (y - 1) div 4 - (y - 1) div 100 + (y - 1) div 400
                      + sum_list (take (m - 1) (month_lengths y)) + d))
      else None)"

definition iso_date :: "string \<Rightarrow> int option" where
  "iso_date s =
     (case split_on CHR ''-'' s of
        [ys, ms, ds] \<Rightarrow>
          (if length ys = 4 \<and> length ms = 2 \<and> length ds = 2 then
             (case (digits_val ys 0, digits_val ms 0, digits_val ds 0) of
                (Some y, Some m, Some d) \<Rightarrow> day_number y m d
              | _ \<Rightarrow> None)
           else None)
      | _ \<Rightarrow> None)"

section \<open>Sample inputs\<close>

text \<open>
  \<open>no_data\<close> is a dictionary without any of the keys; \<open>sample_data\<close> is the dictionary
  of the source's own example (lines 464-468); \<open>sample_runs\<close> are two run records.
\<close>

definition no_data :: fitness_data where
  "no_data =
     \<lparr>data_period_days = None, total_runs = None, total_distance = None,
      weekly_mileage = None, average_pace = None, recent_pace_trend = None,
      longest_run = None, fitness_level = None, consistency_score = None,
      workout_distribution = None, profile_average_heartrate = None,
      training_recommendations = None\<rparr>"

definition sample_data :: fitness_data where
  "sample_data =
     no_data\<lparr>weekly_mileage := Some 35, fitness_level := Some ''Intermediate'',
             longest_run := Some \<lparr>lr_distance = Some 14, lr_pace = None, lr_date = None\<rparr>\<rparr>"

definition sample_run :: "int \<Rightarrow> string \<Rightarrow> real \<Rightarrow> int \<Rightarrow> real \<Rightarrow> run" where
  "sample_run i d miles secs pace =
     \<lparr>run_id = i, run_name = ''Run'', date = d, distance = miles, moving_time = secs,
      pace_per_mile = pace, elevation_gain = 0, average_heartrate = None,
      max_heartrate = None, suffer_score = None, workout_type = Some None\<rparr>"

definition sample_runs :: "run list" where
  "sample_runs =
     [sample_run 1 ''2024-01-01'' 20 12000 10, sample_run 2 ''2024-01-08'' 6 3060 8.5]"

section \<open>The wording of the specification\<close>

text \<open>
  A goal time that parses as an \<^verbatim>\<open>H:MM:SS\<close> numeric triple, as the specification
  words it: exactly three parts between the colons, each of them a number.
\<close>

definition is_hms_triple :: "(string \<Rightarrow> real option) \<Rightarrow> string \<Rightarrow> bool" where
  "is_hms_triple pf s =
     (case split_on CHR '':'' s of
        [h, m, sec] \<Rightarrow> pf h \<noteq> None \<and> pf m \<noteq> None \<and> pf sec \<noteq> None
      | _ \<Rightarrow> False)"

text \<open>
  The consistency score as the specification words it: the day gaps between consecutive
  sorted dates, their average (0 for fewer than two records), and the first threshold
  that the average does not exceed.
\<close>

fun spec_gaps :: "int list \<Rightarrow> int list" where
  "spec_gaps (x # y # zs) = (y - x) # spec_gaps (y # zs)"
| "spec_gaps _ = []"

definition spec_average_gap :: "int list \<Rightarrow> real" where
  "spec_average_gap sorted_days =
     (if length sorted_days < 2 then 0
      else of_int (sum_list (spec_gaps sorted_days)) / real (length sorted_days - 1))"

definition spec_thresholds :: "(real \<times> string) list" where
  "spec_thresholds =
     [(1.5, ''Excellent (Daily runner)''), (2.5, ''Very Good (5-6 runs/week)''),
      (3.5, ''Good (4-5 runs/week)''), (5, ''Fair (3-4 runs/week)'')]"

fun first_at_most :: "(real \<times> string) list \<Rightarrow> real \<Rightarrow> string" where
  "first_at_most [] gap = ''Needs Improvement (Inconsistent)''"
| "first_at_most ((t, label) # rest) gap = (if gap \<le> t then label else first_at_most rest gap)"

definition spec_consistency_label :: "real \<Rightarrow> string" where
  "spec_consistency_label gap = first_at_most spec_thresholds gap"

text \<open>
  The schedule invariant as the specification words it: no negative mileage, and every
  taper week (the last 4 weeks when \<open>weeks \<ge> 12\<close>, the last 2 otherwise) strictly
  below the peak week, the maximum of the schedule.
\<close>

definition taper_len :: "int \<Rightarrow> int" where
  "taper_len weeks = (if weeks \<ge> 12 then 4 else 2)"

definition peak_miles :: "week_entry list \<Rightarrow> real" where
  "peak_miles schedule = Max (set (map total_miles schedule))"

definition taper_below_peak :: "int \<Rightarrow> week_entry list \<Rightarrow> bool" where
  "taper_below_peak weeks schedule \<longleftrightarrow>
     (\<forall>e \<in> set schedule. 0 \<le> total_miles e) \<and>
     (\<forall>e \<in> set schedule.
        weeks - taper_len weeks < week e \<longrightarrow> total_miles e < peak_miles schedule)"

section \<open>Results\<close>

subsection \<open>Shared lemmas\<close>

lemma exact_ops_sel [simp]:
  "fl_add exact_ops = (+)" "fl_sub exact_ops = (-)" "fl_mul exact_ops = (*)"
  "fl_div exact_ops = (/)" "fl_sum exact_ops = sum_list"
  by (simp_all add: exact_ops_def)

lemma determine_refines_spec:
  "determine_fitness_level m l p = tier_label (spec_fitness_tier m l p)"
  by (simp add: determine_fitness_level_def base_level_def spec_fitness_tier_def spec_cascade_def)

lemma level_rank_label: "level_rank (tier_label t) = tier_rank t"
  by (cases t) (simp_all add: level_rank_def)

lemma first_match_mono:
  "m1 \<le> m2 \<Longrightarrow>
   tier_rank (first_match spec_cascade m1 l) \<le> tier_rank (first_match spec_cascade m2 l)"
  by (simp add: spec_cascade_def)

lemma spec_adjust_mono:
  "tier_rank t1 \<le> tier_rank t2 \<Longrightarrow> tier_rank (spec_adjust t1 p) \<le> tier_rank (spec_adjust t2 p)"
  by (cases t1; cases t2) simp_all

lemma schedule_weeks: "map week (generate_weekly_schedule A w b p l) = [1..w]"
  by (simp add: generate_weekly_schedule_def py_range_def Let_def comp_def)

lemma schedule_length: "length (generate_weekly_schedule A w b p l) = nat w"
  by (simp add: generate_weekly_schedule_def py_range_def Let_def)

lemma generate_None_ok: "\<exists>plan. generate_training_plan A pf weeks fd None = Inr plan"
  by (simp add: generate_training_plan_def calculate_pace_targets_def goal_pace_of_def ebind_def
      Let_def)

lemma pace_ok_plan:
  "calculate_pace_targets A pf fd gt = Inr paces \<Longrightarrow>
   \<exists>plan. generate_training_plan A pf weeks fd gt = Inr plan"
  by (simp add: generate_training_plan_def ebind_def Let_def)

lemma generate_schedule:
  "generate_training_plan A pf weeks fd gt = Inr plan \<Longrightarrow>
   weekly_schedule plan =
     generate_weekly_schedule A weeks (get_or (weekly_mileage fd) 20)
       (max_safe_mileage A weeks (get_or (weekly_mileage fd) 20)
          (get_or (fitness_level fd) ''Beginner''))
       (get_or (fitness_level fd) ''Beginner'')"
  by (auto simp add: generate_training_plan_def ebind_def Let_def split: sum.splits)

lemma generate_key_workouts_eq:
  "generate_training_plan A pf weeks fd gt = Inr plan \<Longrightarrow>
   key_workouts plan =
     generate_key_workouts A weeks (get_or (fitness_level fd) ''Beginner'')
       (get_or (lr_distance (get_or (longest_run fd)
                  \<lparr>lr_distance = None, lr_pace = None, lr_date = None\<rparr>)) 8)"
  by (auto simp add: generate_training_plan_def ebind_def Let_def split: sum.splits)

lemma generate_structure_eq:
  "generate_training_plan A pf weeks fd gt = Inr plan \<Longrightarrow>
   weekly_structure plan = create_weekly_structure (get_or (fitness_level fd) ''Beginner'')"
  by (auto simp add: generate_training_plan_def ebind_def Let_def split: sum.splits)

lemma sample_paces:
  "calculate_pace_targets exact_ops decimal_float sample_data (Some ''3:45:00'') =
     Inr \<lparr>current_average_pace = 9, goal_marathon_pace = 8.59, easy_pace = 9.88,
          tempo_pace = 7.9, interval_pace = 7.3, long_run_pace = 9.45\<rparr>"
  by code_simp

subsection \<open>Empty input\<close>


subsection \<open>Length of the weekly schedule\<close>

text \<open>
  C3. For every positive number of weeks, in \<open>{4, 8, 12, 16}\<close> or not, every profile and
  every goal time: generation without a goal time returns a plan, and every plan that
  generation returns has a weekly schedule of exactly \<open>weeks\<close> entries, numbered
  \<open>1, \<dots>, weeks\<close> in order.
\<close>

theorem schedule_length_eq_weeks:
  assumes "0 < weeks"
  shows "(\<exists>plan. generate_training_plan A pf weeks fd None = Inr plan) \<and>
         (\<forall>plan. generate_training_plan A pf weeks fd goal_time = Inr plan \<longrightarrow>
            int (length (weekly_schedule plan)) = weeks \<and>
            map week (weekly_schedule plan) = [1..weeks])"
proof (intro conjI allI impI)
  show "\<exists>plan. generate_training_plan A pf weeks fd None = Inr plan"
    by (rule generate_None_ok)
next
  fix plan
  assume g: "generate_training_plan A pf weeks fd goal_time = Inr plan"
  show "map week (weekly_schedule plan) = [1..weeks]"
    by (simp only: generate_schedule[OF g] schedule_weeks)
  have "length (weekly_schedule plan) = nat weeks"
    by (simp only: generate_schedule[OF g] schedule_length)
  then show "int (length (weekly_schedule plan)) = weeks"
    using assms by simp
qed

theorem schedule_length_eq_weeks_witness:
  "(0::int) < 10 \<and>
   (\<exists>plan. generate_training_plan exact_ops decimal_float 10 sample_data (Some ''3:45:00'') = Inr plan \<and>
      int (length (weekly_schedule plan)) = 10 \<and>
      map week (weekly_schedule plan) = [1, 2, 3, 4, 5, 6, 7, 8, 9, 10])"
proof -
  obtain plan where p:
    "generate_training_plan exact_ops decimal_float 10 sample_data (Some ''3:45:00'') = Inr plan"
    using pace_ok_plan[OF sample_paces] by blast
  have u: "[1..10::int] = [1, 2, 3, 4, 5, 6, 7, 8, 9, 10]"
    by code_simp
  have pos: "(0::int) < 10"
    by simp
  from schedule_length_eq_weeks[OF pos, of exact_ops decimal_float sample_data "Some ''3:45:00''"] p u
  show ?thesis by auto
qed

subsection \<open>Monotonicity of the fitness level\<close>

text \<open>
  C7. With the longest run and the average pace fixed, a larger weekly mileage never
  gives a lower fitness level, in the order
  Beginner < Beginner+ < Intermediate < Intermediate+ < Advanced.
\<close>

theorem tier_monotone_in_mileage:
  assumes "m1 \<le> m2"
  shows "level_rank (determine_fitness_level m1 l p)
           \<le> level_rank (determine_fitness_level m2 l p)"
  unfolding determine_refines_spec level_rank_label spec_fitness_tier_def
  by (rule spec_adjust_mono) (rule first_match_mono[OF assms])

theorem tier_monotone_in_mileage_witness:
  "(20::real) \<le> 40 \<and> determine_fitness_level 20 16 8 = ''Beginner+'' \<and>
   determine_fitness_level 40 16 8 = ''Intermediate+'' \<and>
   level_rank (determine_fitness_level 20 16 8) \<le> level_rank (determine_fitness_level 40 16 8)"
proof -
  have h: "(20::real) \<le> 40"
    by simp
  have a: "determine_fitness_level 20 16 8 = ''Beginner+''"
    by (simp add: determine_fitness_level_def base_level_def)
  have b: "determine_fitness_level 40 16 8 = ''Intermediate+''"
    by (simp add: determine_fitness_level_def base_level_def)
  from tier_monotone_in_mileage[OF h, of 16 8] h a b show ?thesis
    by simp
qed

subsection \<open>Speed work for a level outside the first three\<close>

text \<open>
  C9. When the fitness level of the profile is none of Beginner, Beginner+ and
  Intermediate, be it one of the two upper tiers or an unknown label, the speed-work
  entry of the plan is the six-session list of the last branch, which differs from the
  Beginner list. When the label is none of the five tiers, the weekly structure of the
  same plan is the Beginner template.
\<close>

theorem unknown_level_speed_catalog:
  assumes "generate_training_plan A pf weeks fd goal_time = Inr plan"
    and "fitness_level fd = Some level"
    and "level \<notin> {''Beginner'', ''Beginner+'', ''Intermediate''}"
  shows "key_workouts plan ! 1 =
           Examples ''Speed Work''
             [''6x800m @ 5K pace'', ''4x1200m @ 5K pace'', ''3x1600m @ 10K pace'',
              ''8x400m @ Mile pace'', ''5x1000m @ 5K pace'', ''2x3200m @ 10K pace'']
             ''Improve VO2 max and running economy'' \<and>
         speed_workouts level = speed_workouts ''Advanced'' \<and>
         speed_workouts level \<noteq> speed_workouts ''Beginner'' \<and>
         (level \<notin> {''Intermediate+'', ''Advanced''} \<longrightarrow>
            weekly_structure plan = create_weekly_structure ''Beginner'' \<and>
            weekly_structure plan =
              \<lparr>runs_per_week = 4,
               structure_slots = [''Easy Run'', ''Rest'', ''Easy Run'', ''Rest'', ''Tempo/Speed'',
                                  ''Rest'', ''Long Run'']\<rparr>)"
  using assms
  by (simp add: generate_key_workouts_eq[OF assms(1)] generate_structure_eq[OF assms(1)]
      generate_key_workouts_def speed_workouts_def create_weekly_structure_def structures_def
      dict_get_def get_or_def)

theorem unknown_level_speed_catalog_witness:
  "\<exists>plan. generate_training_plan exact_ops decimal_float 16
             (sample_data\<lparr>fitness_level := Some ''Elite''\<rparr>) None = Inr plan \<and>
     key_workouts plan ! 1 =
       Examples ''Speed Work''
         [''6x800m @ 5K pace'', ''4x1200m @ 5K pace'', ''3x1600m @ 10K pace'',
          ''8x400m @ Mile pace'', ''5x1000m @ 5K pace'', ''2x3200m @ 10K pace'']
         ''Improve VO2 max and running economy'' \<and>
     weekly_structure plan =
       \<lparr>runs_per_week = 4,
        structure_slots = [''Easy Run'', ''Rest'', ''Easy Run'', ''Rest'', ''Tempo/Speed'',
                           ''Rest'', ''Long Run'']\<rparr>"
proof -
  obtain plan where p:
    "generate_training_plan exact_ops decimal_float 16 (sample_data\<lparr>fitness_level := Some ''Elite''\<rparr>) None
       = Inr plan"
    using generate_None_ok by blast
  have l: "fitness_level (sample_data\<lparr>fitness_level := Some ''Elite''\<rparr>) = Some ''Elite''"
    by simp
  have n: "''Elite'' \<notin> {''Beginner'', ''Beginner+'', ''Intermediate''}"
    by simp
  have n2: "''Elite'' \<notin> {''Intermediate+'', ''Advanced''}"
    by simp
  from unknown_level_speed_catalog[OF p l n] n2 p show ?thesis
    by blast
qed

subsection \<open>Goal time\<close>

lemma split_on_nonempty: "split_on c s \<noteq> []"
  by (induction s) (auto split: list.splits)

lemma goal_pace_fails_iff:
  assumes "s \<noteq> []"
  shows "isl (goal_pace_of A pf cp (Some s)) \<longleftrightarrow>
         \<not> (\<exists>h m sec rest. split_on CHR '':'' s = h # m # sec # rest \<and>
              pf h \<noteq> None \<and> pf m \<noteq> None \<and> pf sec \<noteq> None)"
proof (cases "split_on CHR '':'' s")
  case Nil
  then show ?thesis
    using split_on_nonempty by blast
next
  case c1: (Cons h t1)
  show ?thesis
  proof (cases t1)
    case Nil
    with c1 assms show ?thesis
      by (auto simp add: goal_pace_of_def ebind_def py_index_def py_float_def Let_def
          split: option.splits)
  next
    case c2: (Cons m t2)
    show ?thesis
    proof (cases t2)
      case Nil
      with c1 c2 assms show ?thesis
        by (auto simp add: goal_pace_of_def ebind_def py_index_def py_float_def Let_def
            split: option.splits)
    next
      case (Cons sec rest)
      with c1 c2 assms show ?thesis
        by (auto simp add: goal_pace_of_def ebind_def py_index_def py_float_def Let_def
            split: option.splits)
    qed
  qed
qed

lemma generate_isl:
  "isl (generate_training_plan A pf weeks fd gt) =
   isl (goal_pace_of A pf (get_or (average_pace fd) 9) gt)"
  by (simp add: generate_training_plan_def calculate_pace_targets_def ebind_def Let_def
      split: sum.splits)

lemma generate_default_pace:
  assumes "gt = None \<or> gt = Some []"
  shows "\<exists>plan. generate_training_plan A pf weeks fd gt = Inr plan \<and>
           goal_marathon_pace (pace_targets plan) =
             py_round (fl_mul A (get_or (average_pace fd) 9) 0.95) 2"
  using assms
  by (auto simp add: generate_training_plan_def calculate_pace_targets_def goal_pace_of_def
      ebind_def Let_def)

lemma generate_abc:
  "pf ''abc'' = None \<Longrightarrow> generate_training_plan A pf weeks fd (Some ''abc'') = Inl ValueError"
  by (simp add: generate_training_plan_def calculate_pace_targets_def goal_pace_of_def
      ebind_def Let_def py_index_def py_float_def)

text \<open>
  C5, as stated: every goal-time string that is not an \<^verbatim>\<open>H:MM:SS\<close> numeric triple
  makes generation fail. It does not hold. The empty string is not such a triple, yet
  line 365 treats it as no goal time, and the plan carries the default goal pace
  \<^verbatim>\<open>round(9.0 * 0.95, 2)\<close>, which is 8.55. A string of four numeric parts is not a
  triple either, and generation reads its first three parts and succeeds.
\<close>

theorem goal_time_not_triple_counterexample:
  "\<not> is_hms_triple decimal_float '''' \<and>
   \<not> isl (generate_training_plan exact_ops decimal_float 16 sample_data (Some '''')) \<and>
   goal_marathon_pace
     (pace_targets (projr (generate_training_plan exact_ops decimal_float 16 sample_data (Some ''''))))
     = 8.55 \<and>
   \<not> is_hms_triple decimal_float ''3:45:00:99'' \<and>
   \<not> isl (generate_training_plan exact_ops decimal_float 16 sample_data (Some ''3:45:00:99''))"
proof -
  have a: "\<not> is_hms_triple decimal_float ''''"
    by code_simp
  have b: "\<not> isl (generate_training_plan exact_ops decimal_float 16 sample_data (Some ''''))"
    unfolding generate_isl by code_simp
  have r: "py_round (fl_mul exact_ops (get_or (average_pace sample_data) 9) 0.95) 2 = 8.55"
    by code_simp
  obtain plan where p:
    "generate_training_plan exact_ops decimal_float 16 sample_data (Some '''') = Inr plan"
    and g: "goal_marathon_pace (pace_targets plan) =
      py_round (fl_mul exact_ops (get_or (average_pace sample_data) 9) 0.95) 2"
    using generate_default_pace[where gt = "Some ''''" and A = exact_ops and pf = decimal_float
        and weeks = 16 and fd = sample_data]
    by auto
  have c: "goal_marathon_pace
     (pace_targets (projr (generate_training_plan exact_ops decimal_float 16 sample_data (Some ''''))))
     = 8.55"
    unfolding p sum.sel using g by (simp only: r)
  have d: "\<not> is_hms_triple decimal_float ''3:45:00:99''"
    by code_simp
  have e: "\<not> isl (generate_training_plan exact_ops decimal_float 16 sample_data (Some ''3:45:00:99''))"
    unfolding generate_isl by code_simp
  from a b c d e show ?thesis
    by blast
qed

text \<open>
  C5, amended. With no goal time, or with the empty string, generation returns a plan
  whose goal pace is the float product of the current average pace and 0.95, rounded
  to two decimals by \<^verbatim>\<open>round\<close> in the pace table, whatever the rounding of the product
  is. With a non-empty goal-time string generation fails exactly when the string has
  fewer than three colon-separated parts or one of its first three parts is not a
  number; parts after the third are ignored. In particular \<^verbatim>\<open>"abc"\<close> fails, with
  the \<^verbatim>\<open>ValueError\<close> of \<^verbatim>\<open>float\<close>.
\<close>

theorem goal_time_outcome:
  "goal_pace_of A pf cp None = Inr (fl_mul A cp 0.95) \<and>
   (gt = None \<or> gt = Some [] \<longrightarrow>
      (\<exists>plan. generate_training_plan A pf weeks fd gt = Inr plan \<and>
         goal_marathon_pace (pace_targets plan) =
           py_round (fl_mul A (get_or (average_pace fd) 9) 0.95) 2)) \<and>
   (\<forall>s. s \<noteq> [] \<longrightarrow>
      (isl (generate_training_plan A pf weeks fd (Some s)) \<longleftrightarrow>
       \<not> (\<exists>h m sec rest. split_on CHR '':'' s = h # m # sec # rest \<and>
            pf h \<noteq> None \<and> pf m \<noteq> None \<and> pf sec \<noteq> None))) \<and>
   (pf ''abc'' = None \<longrightarrow>
      generate_training_plan A pf weeks fd (Some ''abc'') = Inl ValueError)"
proof (intro conjI allI impI)
  show "goal_pace_of A pf cp None = Inr (fl_mul A cp 0.95)"
    by (simp add: goal_pace_of_def)
next
  assume "gt = None \<or> gt = Some []"
  then show "\<exists>plan. generate_training_plan A pf weeks fd gt = Inr plan \<and>
      goal_marathon_pace (pace_targets plan) =
        py_round (fl_mul A (get_or (average_pace fd) 9) 0.95) 2"
    by (rule generate_default_pace)
next
  fix s :: string
  assume "s \<noteq> []"
  then show "isl (generate_training_plan A pf weeks fd (Some s)) \<longleftrightarrow>
       \<not> (\<exists>h m sec rest. split_on CHR '':'' s = h # m # sec # rest \<and>
            pf h \<noteq> None \<and> pf m \<noteq> None \<and> pf sec \<noteq> None)"
    unfolding generate_isl by (rule goal_pace_fails_iff)
next
  assume "pf ''abc'' = None"
  then show "generate_training_plan A pf weeks fd (Some ''abc'') = Inl ValueError"
    by (rule generate_abc)
qed

theorem goal_time_outcome_witness:
  "generate_training_plan exact_ops decimal_float 16 sample_data (Some ''abc'') = Inl ValueError \<and>
   isl (generate_training_plan exact_ops decimal_float 16 sample_data (Some ''3:45'')) \<and>
   \<not> isl (generate_training_plan exact_ops decimal_float 16 sample_data (Some ''3:45:00'')) \<and>
   (\<exists>plan. generate_training_plan exact_ops decimal_float 16 sample_data None = Inr plan \<and>
      goal_marathon_pace (pace_targets plan) = 8.55)"
proof -
  note t = goal_time_outcome[of exact_ops decimal_float _ _ 16 sample_data]
  have abc: "decimal_float ''abc'' = None"
    by code_simp
  have s2: "split_on CHR '':'' ''3:45'' = [''3'', ''45'']"
    by simp
  have s3: "split_on CHR '':'' ''3:45:00'' = [''3'', ''45'', ''00'']"
    by simp
  have p3: "decimal_float ''3'' \<noteq> None \<and> decimal_float ''45'' \<noteq> None \<and>
            decimal_float ''00'' \<noteq> None"
    by code_simp
  have r: "py_round (fl_mul exact_ops (get_or (average_pace sample_data) 9) 0.95) 2 = 8.55"
    by code_simp
  have a: "generate_training_plan exact_ops decimal_float 16 sample_data (Some ''abc'') = Inl ValueError"
    using t[of 0 None] abc by blast
  have b: "isl (generate_training_plan exact_ops decimal_float 16 sample_data (Some ''3:45''))"
    using t[of 0 None] s2 by simp
  have c: "\<not> isl (generate_training_plan exact_ops decimal_float 16 sample_data (Some ''3:45:00''))"
    using t[of 0 None] s3 p3 by simp
  have d0: "\<exists>plan. generate_training_plan exact_ops decimal_float 16 sample_data None = Inr plan \<and>
      goal_marathon_pace (pace_targets plan) =
        py_round (fl_mul exact_ops (get_or (average_pace sample_data) 9) 0.95) 2"
    using t[of 0 None] by blast
  have d: "\<exists>plan. generate_training_plan exact_ops decimal_float 16 sample_data None = Inr plan \<and>
      goal_marathon_pace (pace_targets plan) = 8.55"
    using d0 by (simp only: r)
  from a b c d show ?thesis
    by blast
qed

subsection \<open>Missing keys of the profile\<close>



subsection \<open>Start of the long-run progression\<close>

lemma long_runs_12_8:
  "long_run_progression exact_ops 12 8 = [10, 10, 12, 12, 14, 14, 16, 16, 18, 12, 8, 6]"
  by code_simp

lemma long_runs_8_8: "long_run_progression exact_ops 8 8 = [8, 10, 12, 12, 8]"
  by code_simp

text \<open>
  C6. The claim takes the progression for \<open>weeks \<ge> 12\<close> to start at
  \<open>max(longest run, 8)\<close>, as the comment of line 306 says and as the branch for
  \<open>weeks < 12\<close> does. The loop of lines 311-314 increments before it appends: for 12
  weeks and the longest run 8 (the default of a profile without one) the plan starts
  at 10, while for 8 weeks it starts at 8.
\<close>

theorem long_run_first_entry_evaluation:
  "key_workouts (projr (generate_training_plan exact_ops decimal_float 12 no_data None)) ! 0 =
     Progression ''Long Runs'' [10, 10, 12, 12, 14, 14, 16, 16, 18, 12, 8, 6]
       ''Build endurance gradually, practice race nutrition'' \<and>
   long_run_progression exact_ops 12 8 ! 0 = 10 \<and> max (8::real) 8 = 8 \<and>
   long_run_progression exact_ops 8 8 ! 0 = 8"
proof -
  obtain plan where p: "generate_training_plan exact_ops decimal_float 12 no_data None = Inr plan"
    using generate_None_ok by blast
  have k: "key_workouts plan ! 0 =
     Progression ''Long Runs'' (long_run_progression exact_ops 12 8)
       ''Build endurance gradually, practice race nutrition''"
    by (simp add: generate_key_workouts_eq[OF p] generate_key_workouts_def no_data_def
        get_or_def)
  show ?thesis
    using k by (simp add: p long_runs_12_8 long_runs_8_8)
qed

subsection \<open>Fitness analysis: level and consistency\<close>

lemma iso_date_jan1: "iso_date ''2024-01-01'' = Some 738886"
  by (simp add: iso_date_def digit_val_def day_number_def month_lengths_def is_leap_def)

lemma iso_date_jan8: "iso_date ''2024-01-08'' = Some 738893"
  by (simp add: iso_date_def digit_val_def day_number_def month_lengths_def is_leap_def)

lemma max_by_fold: "key (max_by key b xs) = fold max (map key xs) (key b)"
proof (induction xs arbitrary: b)
  case Nil
  show ?case by simp
next
  case (Cons x xs)
  have "key (if key b < key x then x else b) = max (key x) (key b)"
    by (simp add: max_def)
  with Cons show ?case by simp
qed

lemma max_by_Max: "key (max_by key b xs) = Max (set (map key (b # xs)))"
  by (simp only: max_by_fold list.map Max.set_eq_fold)

lemma those_eq: "those xs = (if None \<in> set xs then None else Some (map the xs))"
  by (induction xs) (auto split: option.splits)

lemma parse_dates_eq:
  "parse_dates sp ds =
     (if None \<in> sp ` set ds then Inl ValueError else Inr (map (\<lambda>d. the (sp d)) ds))"
  by (simp add: parse_dates_def those_eq comp_def)

lemma analyze_level:
  assumes "analyze_strava_fitness A sp runs = Inr p"
  shows "fitness_level p =
     Some (determine_fitness_level
       (fl_div A (fl_sum A (map distance runs))
          (real (max (card (set (map (\<lambda>r. take 7 (date r)) runs))) 1)))
       (Max (set (map distance runs)))
       (fl_div A (fl_sum A (map pace_per_mile runs)) (real (length runs))))"
proof (cases runs)
  case Nil
  with assms show ?thesis by (simp add: analyze_strava_fitness_def)
next
  case (Cons first others)
  have m: "distance (max_by distance first others) = Max (set (map distance runs))"
    unfolding Cons by (rule max_by_Max)
  from assms show ?thesis
    unfolding Cons analyze_strava_fitness_def
    by (auto simp add: ebind_def Let_def m[unfolded Cons] split: sum.splits)
qed

lemma analyze_returns:
  assumes "runs \<noteq> []" and "\<forall>r \<in> set runs. sp (date r) \<noteq> None"
  shows "\<exists>p. analyze_strava_fitness A sp runs = Inr p"
proof -
  from assms(2) have "None \<notin> sp ` set (map date runs)" by force
  then obtain parsed where "parse_dates sp (map date runs) = Inr parsed"
    by (simp add: parse_dates_eq)
  with assms(1) show ?thesis
    by (cases runs) (simp_all add: analyze_strava_fitness_def ebind_def Let_def)
qed


text \<open>
  C2. For every non-empty run sequence whose dates parse, \<^verbatim>\<open>analyze_strava_fitness\<close>
  returns a profile, and its fitness level is the label of the two-stage rule of the
  specification (the descending cascade, then the promotion below pace 7 and the
  demotion above pace 10) applied to the weekly mileage, the longest distance and the
  mean pace as the source computes them, before the profile rounds them: the weekly
  mileage is the float quotient of the float sum of the distances by the number of
  distinct year-month prefixes (at least 1), the mean pace the float quotient of the
  float sum of the paces by the number of runs. This holds for every rounding of the
  sum and of the quotient.
\<close>

theorem fitness_level_two_stage:
  assumes "runs \<noteq> []" and "\<forall>r \<in> set runs. sp (date r) \<noteq> None"
  shows "\<exists>p. analyze_strava_fitness A sp runs = Inr p \<and>
           fitness_level p =
             Some (tier_label (spec_fitness_tier
               (fl_div A (fl_sum A (map distance runs))
                  (real (max (card (set (map (\<lambda>r. take 7 (date r)) runs))) 1)))
               (Max (set (map distance runs)))
               (fl_div A (fl_sum A (map pace_per_mile runs)) (real (length runs)))))"
proof -
  from analyze_returns[OF assms] obtain p where p: "analyze_strava_fitness A sp runs = Inr p"
    by blast
  from analyze_level[OF p] p show ?thesis
    by (simp only: determine_refines_spec) blast
qed

theorem fitness_level_two_stage_witness:
  "sample_runs \<noteq> [] \<and> iso_date (date (sample_runs ! 0)) = Some 738886 \<and>
   iso_date (date (sample_runs ! 1)) = Some 738893 \<and>
   (\<exists>p. analyze_strava_fitness exact_ops iso_date sample_runs = Inr p \<and>
        fitness_level p = Some ''Intermediate'')"
proof -
  have a: "sample_runs \<noteq> []"
    by (simp add: sample_runs_def)
  have d0: "iso_date (date (sample_runs ! 0)) = Some 738886"
    by (simp add: sample_runs_def sample_run_def iso_date_jan1)
  have d1: "iso_date (date (sample_runs ! 1)) = Some 738893"
    by (simp add: sample_runs_def sample_run_def iso_date_jan8)
  have b: "\<forall>r \<in> set sample_runs. iso_date (date r) \<noteq> None"
    by (simp add: sample_runs_def sample_run_def iso_date_jan1 iso_date_jan8)
  have c: "tier_label (spec_fitness_tier
               (fl_div exact_ops (fl_sum exact_ops (map distance sample_runs))
                  (real (max (card (set (map (\<lambda>r. take 7 (date r)) sample_runs))) 1)))
               (Max (set (map distance sample_runs)))
               (fl_div exact_ops (fl_sum exact_ops (map pace_per_mile sample_runs))
                  (real (length sample_runs))))
           = ''Intermediate''"
    by code_simp
  from fitness_level_two_stage[OF a b, of exact_ops] show ?thesis
    unfolding c using a d0 d1 by blast
qed

lemma length_spec_gaps: "length (spec_gaps xs) = length xs - 1"
  by (induction xs rule: spec_gaps.induct) simp_all

lemma nth_spec_gaps: "Suc i < length xs \<Longrightarrow> spec_gaps xs ! i = xs ! Suc i - xs ! i"
proof (induction xs arbitrary: i rule: spec_gaps.induct)
  case (1 x y zs)
  then show ?case by (cases i) simp_all
qed simp_all

lemma date_gaps_spec: "date_gaps xs = spec_gaps xs"
  by (rule nth_equalityI) (simp_all add: date_gaps_def length_spec_gaps nth_spec_gaps)

lemma average_gap_spec: "average_gap (date_gaps xs) = spec_average_gap xs"
proof -
  have "spec_gaps xs \<noteq> [] \<longleftrightarrow> \<not> length xs < 2"
    using length_spec_gaps[of xs] by (cases "spec_gaps xs") auto
  then show ?thesis
    by (simp add: average_gap_def spec_average_gap_def date_gaps_spec length_spec_gaps)
qed

lemma consistency_label_spec: "calculate_consistency_score g = spec_consistency_label g"
  by (simp add: calculate_consistency_score_def spec_consistency_label_def spec_thresholds_def)

lemma analyze_consistency_eq:
  "map_sum id consistency_score (analyze_strava_fitness A sp runs) =
     (if runs = [] then Inl NoValidRunningData
      else if None \<in> sp ` date ` set runs then Inl ValueError
      else Inr (Some (calculate_consistency_score
             (average_gap (date_gaps (sort (map (\<lambda>r. the (sp (date r))) runs)))))))"
proof (cases runs)
  case Nil
  then show ?thesis by (simp add: analyze_strava_fitness_def)
next
  case (Cons first others)
  show ?thesis
    unfolding Cons analyze_strava_fitness_def
    by (simp add: ebind_def Let_def parse_dates_eq comp_def image_image)
qed

lemma sort_map_mset: "mset xs = mset ys \<Longrightarrow> sort (map f xs) = sort (map f ys)"
proof -
  assume "mset xs = mset ys"
  then have "mset (map f xs) = mset (map f ys)" by simp
  then show ?thesis
    by (metis properties_for_sort mset_sort sorted_sort)
qed

text \<open>
  C8. A permutation of the run sequence gives the same consistency score (and the same
  failure, if any). The score of a returned profile is the label of the first threshold
  among 1.5, 2.5, 3.5 and 5 that the average gap between consecutive sorted dates does
  not exceed, the last label otherwise; the average is 0 for fewer than two records.
\<close>

theorem consistency_permutation_invariant:
  assumes "mset runs' = mset runs"
  shows "map_sum id consistency_score (analyze_strava_fitness A sp runs') =
           map_sum id consistency_score (analyze_strava_fitness A sp runs) \<and>
         (\<forall>p. analyze_strava_fitness A sp runs = Inr p \<longrightarrow>
            consistency_score p =
              Some (spec_consistency_label
                (spec_average_gap (sort (map (\<lambda>r. the (sp (date r))) runs)))))"
proof (intro conjI allI impI)
  from assms have s: "set runs' = set runs"
    by (rule mset_eq_setD)
  from assms have e: "runs' = [] \<longleftrightarrow> runs = []"
    by (metis mset_zero_iff)
  show "map_sum id consistency_score (analyze_strava_fitness A sp runs') =
        map_sum id consistency_score (analyze_strava_fitness A sp runs)"
    by (simp only: analyze_consistency_eq s e sort_map_mset[OF assms])
next
  fix p
  assume p: "analyze_strava_fitness A sp runs = Inr p"
  have "map_sum id consistency_score (analyze_strava_fitness A sp runs) = Inr (consistency_score p)"
    by (simp add: p)
  then show "consistency_score p =
      Some (spec_consistency_label
        (spec_average_gap (sort (map (\<lambda>r. the (sp (date r))) runs))))"
    unfolding analyze_consistency_eq
    by (simp add: average_gap_spec consistency_label_spec split: if_splits)
qed

theorem consistency_permutation_invariant_witness:
  "mset (rev sample_runs) = mset sample_runs \<and>
   map_sum id consistency_score (analyze_strava_fitness exact_ops iso_date (rev sample_runs)) =
     Inr (Some ''Needs Improvement (Inconsistent)'') \<and>
   map_sum id consistency_score (analyze_strava_fitness exact_ops iso_date sample_runs) =
     Inr (Some ''Needs Improvement (Inconsistent)'')"
proof -
  have a: "mset (rev sample_runs) = mset sample_runs"
    by simp
  have b: "map_sum id consistency_score (analyze_strava_fitness exact_ops iso_date sample_runs) =
     Inr (Some ''Needs Improvement (Inconsistent)'')"
    unfolding analyze_consistency_eq
    by (simp add: sample_runs_def sample_run_def iso_date_jan1 iso_date_jan8 date_gaps_def
        average_gap_def calculate_consistency_score_def)
  from consistency_permutation_invariant[OF a, of exact_ops iso_date] a b show ?thesis
    by simp
qed

subsection \<open>Taper weeks and the peak week\<close>

lemma rhe_upper: "of_int (round_half_even x) \<le> x + 1 / 2"
  unfolding round_half_even_def Let_def by (auto; linarith)

lemma rhe_lower: "x - 1 / 2 \<le> of_int (round_half_even x)"
  unfolding round_half_even_def Let_def by (auto; linarith)

lemma rhe_mono: "x \<le> y \<Longrightarrow> round_half_even x \<le> round_half_even y"
proof -
  assume xy: "x \<le> y"
  have fl: "\<lfloor>x\<rfloor> \<le> \<lfloor>y\<rfloor>" using xy by (rule floor_mono)
  show ?thesis
  proof (cases "\<lfloor>x\<rfloor> = \<lfloor>y\<rfloor>")
    case True
    with xy show ?thesis
      unfolding round_half_even_def Let_def by auto
  next
    case False
    with fl have lt: "\<lfloor>x\<rfloor> + 1 \<le> \<lfloor>y\<rfloor>" by simp
    have a: "round_half_even x \<le> \<lfloor>x\<rfloor> + 1"
      unfolding round_half_even_def Let_def by auto
    have b: "\<lfloor>y\<rfloor> \<le> round_half_even y"
      unfolding round_half_even_def Let_def by auto
    from a lt b show ?thesis by linarith
  qed
qed

lemma rhe_nonneg: "0 \<le> x \<Longrightarrow> 0 \<le> round_half_even x"
proof -
  assume "0 \<le> x"
  then have "0 \<le> \<lfloor>x\<rfloor>" by simp
  then show ?thesis unfolding round_half_even_def Let_def by auto
qed

lemma round1_upper: "py_round x 1 \<le> x + 1 / 20"
  using rhe_upper[of "x * 10"] by (simp add: py_round_def field_simps)

lemma round1_lower: "x - 1 / 20 \<le> py_round x 1"
  using rhe_lower[of "x * 10"] by (simp add: py_round_def field_simps)

lemma round1_mono: "x \<le> y \<Longrightarrow> py_round x 1 \<le> py_round y 1"
  using rhe_mono[of "x * 10" "y * 10"] by (simp add: py_round_def divide_right_mono)

lemma round1_nonneg: "0 \<le> x \<Longrightarrow> 0 \<le> py_round x 1"
  using rhe_nonneg[of "x * 10"] by (simp add: py_round_def)

lemma set_py_range: "set (py_range a b) = {a..<b}"
  by (auto simp add: py_range_def)

lemma length_py_range: "length (py_range a b) = nat (b - a)"
  by (simp add: py_range_def)

lemma nth_py_range: "i < nat (b - a) \<Longrightarrow> py_range a b ! i = a + int i"
  by (simp add: py_range_def)

lemma length_progression:
  "2 \<le> weeks \<Longrightarrow> length (mileage_progression exact_ops weeks b p) = nat weeks"
  by (auto simp add: mileage_progression_def Let_def length_py_range)

lemma schedule_miles:
  assumes "2 \<le> weeks"
  shows "map total_miles (generate_weekly_schedule exact_ops weeks b p l) = mileage_progression exact_ops weeks b p"
proof (rule nth_equalityI)
  show "length (map total_miles (generate_weekly_schedule exact_ops weeks b p l)) =
        length (mileage_progression exact_ops weeks b p)"
    using assms by (simp add: schedule_length length_progression)
next
  fix i
  assume "i < length (map total_miles (generate_weekly_schedule exact_ops weeks b p l))"
  then have i: "i < nat weeks"
    by (simp add: schedule_length)
  then have r: "py_range 1 (weeks + 1) ! i = 1 + int i"
    by (simp add: nth_py_range)
  from i have li: "i < length (py_range 1 (weeks + 1))"
    by (simp add: length_py_range)
  from i have le: "1 + int i \<le> weeks"
    by linarith
  from i assms le show "map total_miles (generate_weekly_schedule exact_ops weeks b p l) ! i =
      mileage_progression exact_ops weeks b p ! i"
    by (simp add: generate_weekly_schedule_def Let_def li r length_progression)
qed

lemma entry_index:
  assumes "e \<in> set (generate_weekly_schedule exact_ops weeks b p l)"
  shows "\<exists>i < nat weeks. week e = int i + 1 \<and>
           total_miles e = map total_miles (generate_weekly_schedule exact_ops weeks b p l) ! i"
proof -
  let ?s = "generate_weekly_schedule exact_ops weeks b p l"
  from assms obtain i where i: "i < length ?s" and e: "e = ?s ! i"
    by (auto simp add: in_set_conv_nth)
  from i have iw: "i < nat weeks" by (simp add: schedule_length)
  have "week e = map week ?s ! i" using i e by simp
  also have "\<dots> = [1..weeks] ! i" by (simp only: schedule_weeks)
  also have "\<dots> = 1 + int i" using iw by simp
  finally have "week e = int i + 1" by simp
  moreover have "total_miles e = map total_miles ?s ! i" using i e by simp
  ultimately show ?thesis using iw by blast
qed

lemma multiplier_bounds:
  "0 < dict_get peak_multipliers weeks 1.5 \<and> dict_get peak_multipliers weeks 1.5 \<le> 1.8"
  by (simp add: dict_get_def peak_multipliers_def)

lemma max_safe_bounds:
  assumes "0 \<le> b"
  shows "0 \<le> max_safe_mileage exact_ops weeks b l \<and> max_safe_mileage exact_ops weeks b l \<le> 1.8 * b"
proof -
  let ?m = "dict_get peak_multipliers weeks 1.5"
  from multiplier_bounds[of weeks] have m: "0 < ?m" "?m \<le> 1.8" by simp_all
  from assms m have lo: "0 \<le> b * ?m" by simp
  from assms m have hi: "b * ?m \<le> 1.8 * b"
    using mult_left_mono[of ?m "1.8" b] by (simp add: mult.commute)
  from lo hi show ?thesis
    by (simp add: max_safe_mileage_def Let_def min_def)
qed

lemma base_margin:
  fixes b p :: real
  assumes "0.7 \<le> b" and "p \<le> b"
  shows "(p * 0.8 + 1 / 20) + 1 / 25 \<le> b - 1 / 20"
  using assms by linarith

lemma taper_lt_base:
  assumes "0.7 \<le> b" and "p \<le> b"
  shows "py_round (p * 0.8) 1 < py_round b 1"
proof -
  have "py_round (p * 0.8) 1 \<le> p * 0.8 + 1 / 20" by (rule round1_upper)
  moreover have "b - 1 / 20 \<le> py_round b 1" by (rule round1_lower)
  ultimately show ?thesis using base_margin[OF assms] by linarith
qed

lemma last_ramp_bound:
  fixes b p n :: real
  assumes "b < p" and "p \<le> 1.8 * b" and "8 \<le> n"
  shows "17 / 18 * p \<le> b + (p - b) / n * (n - 1)"
proof -
  from assms(3) have n: "0 < n" by linarith
  have e: "b + (p - b) / n * (n - 1) = p - (p - b) / n"
    using n by (simp add: field_simps)
  from assms(1) have d: "0 < p - b" by simp
  have "(p - b) / n \<le> (p - b) / 8"
    using d assms(3) by (intro divide_left_mono) auto
  moreover from assms(2) have "(p - b) / 8 \<le> p / 18" by (simp add: field_simps)
  ultimately show ?thesis unfolding e by linarith
qed

lemma last_margin:
  fixes b p n :: real
  assumes "0.7 \<le> b" and "b < p" and "p \<le> 1.8 * b" and "8 \<le> n"
  shows "(p * 0.8 + 1 / 20) + 1 / 1000 \<le> (b + (p - b) / n * (n - 1)) - 1 / 20"
  using last_ramp_bound[OF assms(2-4)] assms(1,2) by linarith

lemma taper_lt_last:
  assumes "0.7 \<le> b" and "b < p" and "p \<le> 1.8 * b" and "8 \<le> n"
  shows "py_round (p * 0.8) 1 < py_round (b + (p - b) / n * (n - 1)) 1"
proof -
  let ?L = "b + (p - b) / n * (n - 1)"
  have "py_round (p * 0.8) 1 \<le> p * 0.8 + 1 / 20" by (rule round1_upper)
  moreover have "?L - 1 / 20 \<le> py_round ?L 1" by (rule round1_lower)
  ultimately show ?thesis using last_margin[OF assms] by linarith
qed

lemma short_margin:
  fixes b c :: real
  assumes "0.7 \<le> b" and "c \<le> 0.7"
  shows "(b * c + 1 / 20) + 4 / 25 \<le> b"
proof -
  from assms have "b * c \<le> b * 0.7"
    by (intro mult_left_mono) simp_all
  then show ?thesis using assms(1) by linarith
qed

lemma short_taper_lt_base:
  assumes "0.7 \<le> b" and "c \<le> 0.7"
  shows "py_round (b * c) 1 < b"
proof -
  have "py_round (b * c) 1 \<le> b * c + 1 / 20" by (rule round1_upper)
  then show ?thesis using short_margin[OF assms] by linarith
qed

lemma progression_long_members:
  assumes "12 \<le> weeks"
  shows "py_round b 1 \<in> set (mileage_progression exact_ops weeks b p)"
    and "py_round (b + (p - b) / of_int (weeks - 4) * (of_int (weeks - 4) - 1)) 1
           \<in> set (mileage_progression exact_ops weeks b p)"
proof -
  let ?bw = "weeks - 4"
  let ?f = "\<lambda>wk::int. py_round (b + (p - b) / of_int ?bw * of_int wk) 1"
  have z: "(0::int) \<in> set (py_range 0 ?bw)" and l: "?bw - 1 \<in> set (py_range 0 ?bw)"
    using assms by (simp_all add: set_py_range)
  have "?f 0 \<in> ?f ` set (py_range 0 ?bw)" using z by (rule imageI)
  then show "py_round b 1 \<in> set (mileage_progression exact_ops weeks b p)"
    using assms by (simp add: mileage_progression_def Let_def)
  have "?f (?bw - 1) \<in> ?f ` set (py_range 0 ?bw)" using l by (rule imageI)
  then show "py_round (b + (p - b) / of_int ?bw * (of_int ?bw - 1)) 1
           \<in> set (mileage_progression exact_ops weeks b p)"
    using assms by (simp add: mileage_progression_def Let_def)
qed

lemma progression_long_taper:
  assumes "12 \<le> weeks" and "nat (weeks - 4) \<le> i" and "i < nat weeks"
  shows "mileage_progression exact_ops weeks b p ! i \<in>
           {py_round (p * 0.8) 1, py_round (p * 0.6) 1, py_round (p * 0.4) 1,
            py_round (p * 0.3) 1}"
proof -
  let ?tp = "[py_round (p * 0.8) 1, py_round (p * 0.6) 1, py_round (p * 0.4) 1,
              py_round (p * 0.3) 1]"
  from assms have j: "i - nat (weeks - 4) < 4" by linarith
  have "mileage_progression exact_ops weeks b p ! i = ?tp ! (i - nat (weeks - 4))"
    using assms by (simp add: mileage_progression_def Let_def nth_append length_py_range)
  moreover have "?tp ! (i - nat (weeks - 4)) \<in> set ?tp"
    using j by (intro nth_mem) simp
  ultimately show ?thesis by simp
qed

lemma progression_short_members:
  assumes "3 \<le> weeks" and "weeks < 12"
  shows "b \<in> set (mileage_progression exact_ops weeks b p)"
proof -
  have "(0::int) \<in> set (py_range 0 (weeks - 2))"
    using assms by (simp add: set_py_range)
  then have "(\<lambda>wk::int. b) 0 \<in> (\<lambda>wk. b) ` set (py_range 0 (weeks - 2))" by (rule imageI)
  then show ?thesis using assms by (simp add: mileage_progression_def)
qed

lemma progression_short_taper:
  assumes "2 \<le> weeks" and "weeks < 12" and "nat (weeks - 2) \<le> i" and "i < nat weeks"
  shows "mileage_progression exact_ops weeks b p ! i \<in> {py_round (b * 0.7) 1, py_round (b * 0.5) 1}"
proof -
  let ?tp = "[py_round (b * 0.7) 1, py_round (b * 0.5) 1]"
  from assms have j: "i - nat (weeks - 2) < 2" by linarith
  have "mileage_progression exact_ops weeks b p ! i = ?tp ! (i - nat (weeks - 2))"
    using assms by (simp add: mileage_progression_def nth_append length_py_range)
  moreover have "?tp ! (i - nat (weeks - 2)) \<in> set ?tp"
    using j by (intro nth_mem) simp
  ultimately show ?thesis by simp
qed

lemma convex_nonneg:
  fixes b p n k :: real
  assumes "0 \<le> b" and "0 \<le> p" and "0 \<le> k" and "k < n"
  shows "0 \<le> b + (p - b) / n * k"
proof -
  from assms have n: "0 < n" by linarith
  have "b + (p - b) / n * k = (b * (n - k) + p * k) / n"
    using n by (simp add: field_simps)
  moreover have "0 \<le> b * (n - k) + p * k"
    using assms by (intro add_nonneg_nonneg mult_nonneg_nonneg) simp_all
  ultimately show ?thesis using n by simp
qed

lemma progression_nonneg:
  assumes "0 \<le> b" and "0 \<le> p" and "x \<in> set (mileage_progression exact_ops weeks b p)"
  shows "0 \<le> x"
proof (cases "12 \<le> weeks")
  case True
  have ramp: "0 \<le> py_round (b + (p - b) / of_int (weeks - 4) * of_int k) 1"
    if "k \<in> set (py_range 0 (weeks - 4))" for k
  proof -
    from that have "0 \<le> k" "k < weeks - 4" by (simp_all add: set_py_range)
    then have "0 \<le> b + (p - b) / of_int (weeks - 4) * of_int k"
      using assms(1,2) by (intro convex_nonneg) simp_all
    then show ?thesis by (rule round1_nonneg)
  qed
  have taper: "0 \<le> py_round (p * c) 1" if "0 \<le> c" for c
    using assms(2) that by (intro round1_nonneg) simp
  from assms(3) True ramp taper[of "0.8"] taper[of "0.6"] taper[of "0.4"] taper[of "0.3"]
  show ?thesis
    by (auto simp add: mileage_progression_def Let_def)
next
  case False
  have taper: "0 \<le> py_round (b * c) 1" if "0 \<le> c" for c
    using assms(1) that by (intro round1_nonneg) simp
  from assms(3) False assms(1) taper[of "0.7"] taper[of "0.5"]
  show ?thesis
    by (auto simp add: mileage_progression_def)
qed

lemma entry_miles_in:
  assumes "e \<in> set (generate_weekly_schedule exact_ops weeks b p l)"
  shows "total_miles e \<in> set (mileage_progression exact_ops weeks b p) \<or> total_miles e = b"
proof -
  let ?prog = "mileage_progression exact_ops weeks b p"
  from assms obtain n where n: "n \<in> set (py_range 1 (weeks + 1))"
    and t: "total_miles e = (if n \<le> int (length ?prog) then ?prog ! nat (n - 1) else b)"
    by (auto simp add: generate_weekly_schedule_def Let_def)
  show ?thesis
  proof (cases "n \<le> int (length ?prog)")
    case True
    from n have "1 \<le> n" by (simp add: set_py_range)
    with True have "nat (n - 1) < length ?prog" by linarith
    then have "?prog ! nat (n - 1) \<in> set ?prog" by (rule nth_mem)
    with True t show ?thesis by simp
  next
    case False
    with t show ?thesis by simp
  qed
qed

lemma schedule_nonneg:
  assumes "0 \<le> b" and "0 \<le> p" and "e \<in> set (generate_weekly_schedule exact_ops weeks b p l)"
  shows "0 \<le> total_miles e"
  using entry_miles_in[OF assms(3)] progression_nonneg[OF assms(1,2)] assms(1) by auto

lemma schedule_taper_below_peak:
  assumes w: "3 \<le> weeks" and b1: "0.7 \<le> b" and p0: "0 \<le> p" and pb: "p \<le> 1.8 * b"
    and e: "e \<in> set (generate_weekly_schedule exact_ops weeks b p l)"
    and t: "weeks - taper_len weeks < week e"
  shows "total_miles e < peak_miles (generate_weekly_schedule exact_ops weeks b p l)"
proof -
  let ?s = "generate_weekly_schedule exact_ops weeks b p l"
  let ?prog = "mileage_progression exact_ops weeks b p"
  from w have w2: "2 \<le> weeks" by simp
  have pk: "peak_miles ?s = Max (set ?prog)"
    by (simp only: peak_miles_def schedule_miles[OF w2])
  have ge: "\<And>x. x \<in> set ?prog \<Longrightarrow> x \<le> Max (set ?prog)"
    by (rule Max_ge) simp_all
  from entry_index[OF e] obtain i where i: "i < nat weeks" and wk: "week e = int i + 1"
    and tm: "total_miles e = ?prog ! i"
    by (auto simp only: schedule_miles[OF w2])
  show ?thesis
  proof (cases "12 \<le> weeks")
    case True
    from t wk True have "nat (weeks - 4) \<le> i" by (simp add: taper_len_def)
    have le4: "py_round (p * c) 1 \<le> py_round (p * 0.8) 1" if "c \<le> 0.8" for c
    proof -
      from p0 that have "p * c \<le> p * 0.8" by (intro mult_left_mono) simp_all
      then show ?thesis by (rule round1_mono)
    qed
    from progression_long_taper[OF True \<open>nat (weeks - 4) \<le> i\<close> i, of b p]
      le4[of "0.8"] le4[of "0.6"] le4[of "0.4"] le4[of "0.3"]
    have le: "?prog ! i \<le> py_round (p * 0.8) 1"
      by auto
    have "py_round (p * 0.8) 1 < Max (set ?prog)"
    proof (cases "p \<le> b")
      case True
      from taper_lt_base[OF b1 True] ge[OF progression_long_members(1)[OF \<open>12 \<le> weeks\<close>]]
      show ?thesis by linarith
    next
      case False
      then have bp: "b < p" by simp
      from \<open>12 \<le> weeks\<close> have n: "(8::real) \<le> of_int (weeks - 4)" by simp
      from taper_lt_last[OF b1 bp pb n]
        ge[OF progression_long_members(2)[OF \<open>12 \<le> weeks\<close>]]
      show ?thesis by linarith
    qed
    with le show ?thesis unfolding pk tm by linarith
  next
    case False
    then have s: "weeks < 12" by simp
    from t wk False have "nat (weeks - 2) \<le> i" by (simp add: taper_len_def)
    from progression_short_taper[OF w2 s this i, of b p]
      short_taper_lt_base[OF b1, of "0.7"] short_taper_lt_base[OF b1, of "0.5"]
    have "?prog ! i < b"
      by auto
    with ge[OF progression_short_members[OF w s]]
    show ?thesis unfolding pk tm by linarith
  qed
qed

lemma generate_mileage:
  "generate_training_plan exact_ops pf weeks fd gt = Inr plan \<Longrightarrow>
   current_weekly_mileage plan = get_or (weekly_mileage fd) 20"
  by (auto simp add: generate_training_plan_def ebind_def Let_def split: sum.splits)


lemma tiny_schedule:
  "map total_miles
     (generate_weekly_schedule exact_ops 4 (get_or (weekly_mileage (no_data\<lparr>weekly_mileage := Some 0.08\<rparr>)) 20)
        (max_safe_mileage exact_ops 4 (get_or (weekly_mileage (no_data\<lparr>weekly_mileage := Some 0.08\<rparr>)) 20)
           (get_or (fitness_level (no_data\<lparr>weekly_mileage := Some 0.08\<rparr>)) ''Beginner''))
        (get_or (fitness_level (no_data\<lparr>weekly_mileage := Some 0.08\<rparr>)) ''Beginner''))
   = [0.08, 0.08, 0.1, 0]"
  by code_simp

lemma tiny_schedule_violates:
  "\<not> taper_below_peak 4
     (generate_weekly_schedule exact_ops 4 (get_or (weekly_mileage (no_data\<lparr>weekly_mileage := Some 0.08\<rparr>)) 20)
        (max_safe_mileage exact_ops 4 (get_or (weekly_mileage (no_data\<lparr>weekly_mileage := Some 0.08\<rparr>)) 20)
           (get_or (fitness_level (no_data\<lparr>weekly_mileage := Some 0.08\<rparr>)) ''Beginner''))
        (get_or (fitness_level (no_data\<lparr>weekly_mileage := Some 0.08\<rparr>)) ''Beginner''))"
  by code_simp

lemma two_week_schedule:
  "map total_miles
     (generate_weekly_schedule exact_ops 2 (get_or (weekly_mileage sample_data) 20)
        (max_safe_mileage exact_ops 2 (get_or (weekly_mileage sample_data) 20)
           (get_or (fitness_level sample_data) ''Beginner''))
        (get_or (fitness_level sample_data) ''Beginner''))
   = [24.5, 17.5]"
  by code_simp

lemma two_week_schedule_violates:
  "\<not> taper_below_peak 2
     (generate_weekly_schedule exact_ops 2 (get_or (weekly_mileage sample_data) 20)
        (max_safe_mileage exact_ops 2 (get_or (weekly_mileage sample_data) 20)
           (get_or (fitness_level sample_data) ''Beginner''))
        (get_or (fitness_level sample_data) ''Beginner''))"
  by code_simp

text \<open>
  C4, as stated: for positive current weekly mileage every entry is non-negative and
  every taper week is strictly below the peak week. The second part does not hold.
  With 4 weeks and a weekly mileage of 0.08 the schedule is 0.08, 0.08, 0.1, 0: the
  first taper week is \<^verbatim>\<open>round(0.08 * 0.7, 1)\<close>, which is 0.1, above the two weeks before
  it and so the peak itself; the second is \<^verbatim>\<open>round(0.08 * 0.5, 1)\<close>, the rounding of
  0.04. With 2 weeks both weeks are taper weeks, \<^verbatim>\<open>round(35 * 0.7, 1)\<close> and
  \<^verbatim>\<open>round(35 * 0.5, 1)\<close>, that is 24.5 and 17.5, and the first of them is the peak.
  None of the four products is near a rounding tie, and the float products round as
  the exact ones do.
\<close>

theorem taper_not_below_peak_counterexample:
  "current_weekly_mileage
     (projr (generate_training_plan exact_ops decimal_float 4 (no_data\<lparr>weekly_mileage := Some 0.08\<rparr>) None))
     = 0.08 \<and>
   map total_miles (weekly_schedule
     (projr (generate_training_plan exact_ops decimal_float 4 (no_data\<lparr>weekly_mileage := Some 0.08\<rparr>) None)))
     = [0.08, 0.08, 0.1, 0] \<and>
   \<not> taper_below_peak 4 (weekly_schedule
     (projr (generate_training_plan exact_ops decimal_float 4 (no_data\<lparr>weekly_mileage := Some 0.08\<rparr>) None))) \<and>
   current_weekly_mileage (projr (generate_training_plan exact_ops decimal_float 2 sample_data None)) = 35 \<and>
   map total_miles (weekly_schedule
     (projr (generate_training_plan exact_ops decimal_float 2 sample_data None))) = [24.5, 17.5] \<and>
   \<not> taper_below_peak 2 (weekly_schedule
     (projr (generate_training_plan exact_ops decimal_float 2 sample_data None)))"
proof -
  let ?fd = "no_data\<lparr>weekly_mileage := Some 0.08\<rparr>"
  obtain plan where p: "generate_training_plan exact_ops decimal_float 4 ?fd None = Inr plan"
    using generate_None_ok by blast
  obtain plan2 where q: "generate_training_plan exact_ops decimal_float 2 sample_data None = Inr plan2"
    using generate_None_ok by blast
  have a: "current_weekly_mileage plan = 0.08"
    by (simp add: generate_mileage[OF p] get_or_def)
  have b: "current_weekly_mileage plan2 = 35"
    by (simp add: generate_mileage[OF q] get_or_def sample_data_def)
  show ?thesis
    unfolding p q sum.sel generate_schedule[OF p] generate_schedule[OF q]
    using a b tiny_schedule tiny_schedule_violates two_week_schedule two_week_schedule_violates
    by blast
qed

text \<open>
  C4, amended. For every plan that generation returns: if the current weekly mileage is
  positive, no entry of the schedule is negative; if moreover there are at least 3
  weeks and the current weekly mileage is at least 0.7, every taper week (one of the last
  4 weeks when \<open>weeks \<ge> 12\<close>, of the last 2 otherwise) is strictly below the peak
  week of the schedule.

  The theorem is about the schedule in the arithmetic without rounding, \<open>exact_ops\<close>.
  A taper week is below the peak there by a margin: the largest value that \<^verbatim>\<open>round\<close>
  can give the taper week is at least 1/1000 of a mile below the smallest value that it
  can give the week it is compared with (\<open>short_margin\<close>, \<open>base_margin\<close>,
  \<open>last_margin\<close>). The float operations that compute the two weeks change them by a
  relative error of the order of \<open>2\<^sup>-\<^sup>5\<^sup>2\<close>, far less than the margin.
\<close>

theorem taper_below_peak_for_real_mileage:
  assumes g: "generate_training_plan exact_ops pf weeks fd gt = Inr plan"
  shows "(0 < current_weekly_mileage plan \<longrightarrow>
           (\<forall>e \<in> set (weekly_schedule plan). 0 \<le> total_miles e)) \<and>
         (3 \<le> weeks \<and> 0.7 \<le> current_weekly_mileage plan \<longrightarrow>
           taper_below_peak weeks (weekly_schedule plan))"
proof -
  let ?b = "get_or (weekly_mileage fd) 20"
  let ?l = "get_or (fitness_level fd) ''Beginner''"
  let ?p = "max_safe_mileage exact_ops weeks ?b ?l"
  note s = generate_schedule[OF g]
  note m = generate_mileage[OF g]
  have nonneg: "\<forall>e \<in> set (weekly_schedule plan). 0 \<le> total_miles e" if "0 \<le> ?b"
  proof
    fix e assume "e \<in> set (weekly_schedule plan)"
    then have "e \<in> set (generate_weekly_schedule exact_ops weeks ?b ?p ?l)" by (simp only: s)
    with that max_safe_bounds[OF that, of weeks ?l] show "0 \<le> total_miles e"
      by (intro schedule_nonneg[of ?b ?p e weeks ?l]) simp_all
  qed
  have taper: "taper_below_peak weeks (weekly_schedule plan)" if w: "3 \<le> weeks" and b1: "0.7 \<le> ?b"
  proof -
    from b1 have b0: "0 \<le> ?b" by simp
    note pb = max_safe_bounds[OF b0, of weeks ?l]
    have "total_miles e < peak_miles (weekly_schedule plan)"
      if "e \<in> set (weekly_schedule plan)" "weeks - taper_len weeks < week e" for e
      using that pb unfolding s
      by (intro schedule_taper_below_peak[OF w b1]) simp_all
    with nonneg[OF b0] show ?thesis by (simp add: taper_below_peak_def)
  qed
  from nonneg taper show ?thesis unfolding m by simp
qed

theorem taper_below_peak_for_real_mileage_witness:
  "\<exists>plan. generate_training_plan exact_ops decimal_float 16 sample_data None = Inr plan \<and>
     current_weekly_mileage plan = 35 \<and>
     week (weekly_schedule plan ! 12) = 13 \<and>
     total_miles (weekly_schedule plan ! 12) < peak_miles (weekly_schedule plan) \<and>
     0 \<le> total_miles (weekly_schedule plan ! 0)"
proof -
  obtain plan where p: "generate_training_plan exact_ops decimal_float 16 sample_data None = Inr plan"
    using generate_None_ok by blast
  let ?s = "weekly_schedule plan"
  have m: "current_weekly_mileage plan = 35"
    by (simp add: generate_mileage[OF p] get_or_def sample_data_def)
  from taper_below_peak_for_real_mileage[OF p] m
  have nn: "\<forall>e \<in> set ?s. 0 \<le> total_miles e" and tb: "taper_below_peak 16 ?s"
    by simp_all
  have len: "length ?s = 16"
    by (simp add: generate_schedule[OF p] schedule_length)
  have mem: "?s ! 12 \<in> set ?s" "?s ! 0 \<in> set ?s"
    using len by simp_all
  have "map week ?s ! 12 = [1..16] ! 12"
    by (simp only: generate_schedule[OF p] schedule_weeks)
  then have wk: "week (?s ! 12) = 13"
    using len by simp
  from tb mem(1) wk have lt: "total_miles (?s ! 12) < peak_miles ?s"
    by (simp add: taper_below_peak_def taper_len_def)
  from nn mem(2) have z: "0 \<le> total_miles (?s ! 0)"
    by blast
  from p m wk lt z show ?thesis
    by blast
qed

end
